theory Spec2Isabelle
  imports Complex_Main "HOL-Library.Log_Nat"
begin

section \<open>JavaScript values\<close>

text \<open>
  A JavaScript number is an IEEE 754 double. The model keeps its four kinds of value apart:
  a finite number (given by its exact value, a rational), the two infinities and NaN. Every
  arithmetic operation rounds its exact result to the nearest double, a tie going to the
  even significand, and overflows to an infinity, as binary64 does. Zero has one sign
  (\<open>+0\<close>). The numbers in the data (weights, bounds, numeric answers) stand for the doubles
  they are in the program.
\<close>

datatype jsnum = Fin rat | PosInf | NegInf | NaN

text \<open>The exponent of a positive rational: \<open>2 ^ ilog2 q \<le> q < 2 ^ (ilog2 q + 1)\<close>.\<close>

definition ilog2 :: "rat \<Rightarrow> int" where
  "ilog2 q =
     (case quotient_of q of
        (a, b) \<Rightarrow> (let k = bitlen a - bitlen b in if 2 powi k \<le> q then k else k - 1))"

text \<open>The nearest integer, a tie going to the even one.\<close>

definition round_even :: "rat \<Rightarrow> int" where
  "round_even r =
     (let f = \<lfloor>r\<rfloor>; d = r - of_int f
      in if d < 1 / 2 then f
         else if 1 / 2 < d then f + 1
         else if even f then f else f + 1)"

text \<open>
  The double nearest to a rational. A double has a significand of 53 bits; its unit in
  the last place is \<open>2 ^ (e - 52)\<close> for the exponent \<open>e\<close> of the number, and \<open>2 ^ (- 1074)\<close>
  below the normal range. A result of \<open>2 ^ 1024\<close> or more is an infinity.
\<close>

definition binary64 :: "rat \<Rightarrow> jsnum" where
  "binary64 q =
     (if q = 0 then Fin 0
      else (let ulp = 2 powi (max (ilog2 \<bar>q\<bar>) (- 1022) - 52);
                v = of_int (round_even (\<bar>q\<bar> / ulp)) * ulp
            in if 2 ^ 1024 \<le> v then (if 0 < q then PosInf else NegInf)
               else Fin (if 0 < q then v else - v)))"

fun js_neg :: "jsnum \<Rightarrow> jsnum" where
  "js_neg (Fin a) = Fin (- a)"
| "js_neg PosInf = NegInf"
| "js_neg NegInf = PosInf"
| "js_neg NaN = NaN"

fun js_add :: "jsnum \<Rightarrow> jsnum \<Rightarrow> jsnum" where
  "js_add (Fin a) (Fin b) = binary64 (a + b)"
| "js_add (Fin a) PosInf = PosInf"
| "js_add (Fin a) NegInf = NegInf"
| "js_add PosInf (Fin b) = PosInf"
| "js_add PosInf PosInf = PosInf"
| "js_add PosInf NegInf = NaN"
| "js_add NegInf (Fin b) = NegInf"
| "js_add NegInf NegInf = NegInf"
| "js_add NegInf PosInf = NaN"
| "js_add NaN y = NaN"
| "js_add x NaN = NaN"

definition js_sub :: "jsnum \<Rightarrow> jsnum \<Rightarrow> jsnum" where
  "js_sub x y = js_add x (js_neg y)"

text \<open>The sign of an infinite product or quotient, from the sign of the finite operand.\<close>

definition inf_signed :: "bool \<Rightarrow> jsnum" where
  "inf_signed positive = (if positive then PosInf else NegInf)"

fun js_mul :: "jsnum \<Rightarrow> jsnum \<Rightarrow> jsnum" where
  "js_mul (Fin a) (Fin b) = binary64 (a * b)"
| "js_mul (Fin a) PosInf = (if a = 0 then NaN else inf_signed (0 < a))"
| "js_mul (Fin a) NegInf = (if a = 0 then NaN else inf_signed (a < 0))"
| "js_mul PosInf (Fin b) = (if b = 0 then NaN else inf_signed (0 < b))"
| "js_mul NegInf (Fin b) = (if b = 0 then NaN else inf_signed (b < 0))"
| "js_mul PosInf PosInf = PosInf"
| "js_mul PosInf NegInf = NegInf"
| "js_mul NegInf PosInf = NegInf"
| "js_mul NegInf NegInf = PosInf"
| "js_mul NaN y = NaN"
| "js_mul x NaN = NaN"

fun js_div :: "jsnum \<Rightarrow> jsnum \<Rightarrow> jsnum" where
  "js_div (Fin a) (Fin b) =
     (if b = 0 then (if a = 0 then NaN else inf_signed (0 < a)) else binary64 (a / b))"
| "js_div (Fin a) PosInf = Fin 0"
| "js_div (Fin a) NegInf = Fin 0"
| "js_div PosInf (Fin b) = inf_signed (0 \<le> b)"
| "js_div NegInf (Fin b) = inf_signed (b < 0)"
| "js_div PosInf PosInf = NaN"
| "js_div PosInf NegInf = NaN"
| "js_div NegInf PosInf = NaN"
| "js_div NegInf NegInf = NaN"
| "js_div NaN y = NaN"
| "js_div x NaN = NaN"

text \<open>The comparison \<open>x < y\<close>; it is false when an operand is NaN.\<close>

fun js_less :: "jsnum \<Rightarrow> jsnum \<Rightarrow> bool" where
  "js_less (Fin a) (Fin b) = (a < b)"
| "js_less (Fin a) PosInf = True"
| "js_less NegInf (Fin b) = True"
| "js_less NegInf PosInf = True"
| "js_less x y = False"

text \<open>\<open>Math.round\<close>: the nearest integer, a tie going up; infinities and NaN are kept.\<close>

fun Math_round :: "jsnum \<Rightarrow> jsnum" where
  "Math_round (Fin a) = Fin (of_int \<lfloor>a + 1 / 2\<rfloor>)"
| "Math_round x = x"

fun is_finite :: "jsnum \<Rightarrow> bool" where
  "is_finite (Fin a) = True"
| "is_finite x = False"

text \<open>A response is \<open>string | number\<close>.\<close>

datatype answer = Str string | Num jsnum

text \<open>The test \<open>!response\<close> succeeds on the empty string, on zero and on NaN.\<close>

fun falsy :: "answer \<Rightarrow> bool" where
  "falsy (Str s) = (s = [])"
| "falsy (Num n) = (n = Fin 0 \<or> n = NaN)"

text \<open>
  The two conversions of the language that the scorer applies to a response:
  \<open>Number(s)\<close> on a string and \<open>n.toString()\<close> on a number. They are built-ins, not code
  of the program, and are taken as parameters.
\<close>

record js_conv =
  Number_str :: "string \<Rightarrow> jsnum"
  toString_num :: "jsnum \<Rightarrow> string"

fun Number_of :: "js_conv \<Rightarrow> answer \<Rightarrow> jsnum" where
  "Number_of cv (Num n) = n"
| "Number_of cv (Str s) = Number_str cv s"

fun toString_of :: "js_conv \<Rightarrow> answer \<Rightarrow> string" where
  "toString_of cv (Str s) = s"
| "toString_of cv (Num n) = toString_num cv n"

text \<open>\<open>Array.prototype.findIndex\<close> and \<open>indexOf\<close>: the first position, or \<open>-1\<close>.\<close>

fun findIndex :: "('a \<Rightarrow> bool) \<Rightarrow> 'a list \<Rightarrow> int" where
  "findIndex P [] = - 1"
| "findIndex P (x # xs) =
     (if P x then 0 else (let r = findIndex P xs in if r < 0 then - 1 else r + 1))"

definition indexOf :: "'a list \<Rightarrow> 'a \<Rightarrow> int" where
  "indexOf xs y = findIndex (\<lambda>x. x = y) xs"

section \<open>Questions and risk assessments\<close>

record QuestionOption =
  min_q :: "rat option"
  max_q :: "rat option"
  step_q :: "rat option"
  options_q :: "string list option"
  cancer_type_hints :: "(string \<times> rat) list option"

record Question =
  id_q :: int
  question_text :: string
  question_type :: string
  options :: QuestionOption
  weight :: rat
  category :: "string option"
  next_question_logic :: "(string \<rightharpoonup> int) option"

record RiskAssessment =
  id_r :: int
  risk_level :: string
  advice :: string
  min_score :: rat
  max_score :: rat
  foods_to_eat :: "string list"
  foods_to_avoid :: "string list"
  cancer_type :: "string option"

type_synonym responses = "int \<rightharpoonup> answer"

section \<open>The scorer\<close>

text \<open>
  The body of the \<open>switch\<close> in \<open>calculateRiskScore\<close>: the amount that the statement
  \<open>totalScore += ...\<close> adds for a question and its response, or \<open>None\<close> where no
  such statement is reached. No branch tests the divisor.
\<close>

definition contribution :: "js_conv \<Rightarrow> Question \<Rightarrow> answer \<Rightarrow> jsnum option" where
  "contribution cv question response =
     (if question_type question = ''boolean'' then
        (if response = Str ''Yes'' then Some (Fin (weight question)) else None)
      else if question_type question = ''range'' then
        (case (min_q (options question), max_q (options question)) of
           (Some mn, Some mx) \<Rightarrow>
             (let range = js_sub (Fin mx) (Fin mn);
                  normalizedValue = js_div (js_sub (Number_of cv response) (Fin mn)) range
              in Some (Math_round (js_mul normalizedValue (Fin (weight question)))))
         | _ \<Rightarrow> None)
      else if question_type question = ''select'' then
        (case options_q (options question) of
           None \<Rightarrow> None
         | Some opts \<Rightarrow>
             (if 0 < length opts then
                (let responseIndex = indexOf opts (toString_of cv response)
                 in if 0 \<le> responseIndex then
                      (let optionScore =
                             js_mul (js_div (Fin (of_int responseIndex))
                                            (Fin (of_nat (length opts) - 1)))
                                    (Fin (weight question))
                       in Some (Math_round optionScore))
                    else None)
              else None))
      else None)"

text \<open>
  One turn of the loop \<open>for (const question of currentQuestionsSet)\<close>. The sum
  \<open>maxPossibleScore\<close> is never read and is left out.
\<close>

definition scoreStep :: "js_conv \<Rightarrow> responses \<Rightarrow> jsnum \<Rightarrow> Question \<Rightarrow> jsnum" where
  "scoreStep cv allResponses totalScore question =
     (case allResponses (id_q question) of
        None \<Rightarrow> totalScore
      | Some response \<Rightarrow>
          (if falsy response then totalScore
           else (case contribution cv question response of
                   None \<Rightarrow> totalScore
                 | Some c \<Rightarrow> js_add totalScore c)))"

definition totalScore :: "js_conv \<Rightarrow> responses \<Rightarrow> Question list \<Rightarrow> jsnum" where
  "totalScore cv allResponses currentQuestionsSet =
     foldl (scoreStep cv allResponses) (Fin 0) currentQuestionsSet"

text \<open>
  The contribution as the specification words it, for a question with an answer: the full
  weight of a boolean question answered \<open>Yes\<close>; for a range question
  \<open>round(weight * (numericAnswer - min) / (max - min))\<close>; for a select question
  \<open>round(weight * index / (length - 1))\<close> with the position of the answer among the
  choices, and nothing for an answer that is not among them.
\<close>

definition spec_contribution :: "js_conv \<Rightarrow> Question \<Rightarrow> answer \<Rightarrow> rat" where
  "spec_contribution cv question a =
     (if question_type question = ''boolean'' then
        (if a = Str ''Yes'' then weight question else 0)
      else if question_type question = ''range'' then
        (case (min_q (options question), max_q (options question), Number_of cv a) of
           (Some mn, Some mx, Fin x) \<Rightarrow>
             of_int (round (weight question * (x - mn) / (mx - mn)))
         | _ \<Rightarrow> 0)
      else if question_type question = ''select'' then
        (case options_q (options question) of
           None \<Rightarrow> 0
         | Some choices \<Rightarrow>
             (let i = indexOf choices (toString_of cv a)
              in if 0 \<le> i
                 then of_int (round (weight question * of_int i / (of_nat (length choices) - 1)))
                 else 0))
      else 0)"





text \<open>A rational that is a double: rounding leaves it as it is.\<close>

definition exact :: "rat \<Rightarrow> bool" where
  "exact q = (binary64 q = Fin q)"



section \<open>The quiz with a queue of cancer types\<close>

text \<open>
  The component keeps one state object. A handler reads the object \<open>state\<close> of the render
  that created it, and that object never changes while the handler runs:
  \<open>setState(prev => ...)\<close> builds a new object from the latest one. So every function
  below takes the \<open>state\<close> it reads and, apart from it, the state under construction,
  with the trace of the calls made so far.
\<close>

record QuizState =
  isLoading :: bool
  questions :: "Question list"
  generalQuestions :: "Question list"
  specializedQuestions :: "Question list"
  currentQuestionIndex :: int
  responses :: responses
  quizCompleted :: bool
  score :: jsnum
  riskAssessment :: "RiskAssessment option"
  quizPhase :: string
  detectedCancerTypes :: "string list"
  currentCancerType :: "string option"
  allCancerTypesProcessed :: bool
  cancerTypesQueue :: "string list"
  hasPositiveResponses :: bool

text \<open>
  The calls that leave the component. \<open>saveAllResponses\<close> is recorded with the responses it
  is given (what it writes depends on the signed-in user and the store), the scorer with its
  two arguments, the query on \<open>risk_assessments\<close> with the score and the cancer type it
  filters by. The trace lists the calls in the order in which they are made.
\<close>

datatype event =
    SaveAllResponses responses
  | CalculateRiskScore responses "Question list"
  | FetchRiskAssessment jsnum "string option"
  | Toast string
  | ConsoleError string

type_synonym run = "QuizState \<times> event list"

text \<open>
  The component imports \<open>analyzeGeneralResponses\<close> and \<open>calculateRiskScore\<close> from the module
  \<open>@/utils/quizUtils\<close>, whose source is not available: the two functions are parameters of
  the component.
\<close>

record quizUtils =
  analyzeGeneralResponses :: "responses \<Rightarrow> Question list \<Rightarrow> string list \<times> bool"
  calculateRiskScore :: "responses \<Rightarrow> Question list \<Rightarrow> jsnum"

text \<open>
  The table \<open>risk_assessments\<close> as the query sees it: the single row for a score and an
  optional cancer type, or \<open>None\<close> when \<open>.single()\<close> reports an error.
\<close>

type_synonym risk_table = "jsnum \<Rightarrow> string option \<Rightarrow> RiskAssessment option"

definition initialState :: QuizState where
  "initialState =
     \<lparr> isLoading = True, questions = [], generalQuestions = [], specializedQuestions = [],
       currentQuestionIndex = 0, responses = Map.empty, quizCompleted = False, score = Fin 0,
       riskAssessment = None, quizPhase = ''general'', detectedCancerTypes = [],
       currentCancerType = None, allCancerTypesProcessed = False, cancerTypesQueue = [],
       hasPositiveResponses = False \<rparr>"

text \<open>\<open>fetchQuestions\<close>, given the two query results (\<open>None\<close>: a query failed).\<close>

definition fetchQuestions :: "(Question list \<times> Question list) option \<Rightarrow> QuizState \<Rightarrow> run" where
  "fetchQuestions fetched prev =
     (case fetched of
        None \<Rightarrow>
          (prev\<lparr>isLoading := False\<rparr>, [ConsoleError ''Error fetching questions:'', Toast ''Error''])
      | Some (generalData, specializedData) \<Rightarrow>
          (if 0 < length generalData then
             (prev\<lparr>generalQuestions := generalData, specializedQuestions := specializedData,
                    questions := generalData, isLoading := False\<rparr>, [])
           else
             (prev\<lparr>isLoading := False\<rparr>,
              [ConsoleError ''No general questions found in the database'',
               Toast ''No Questions Found''])))"

text \<open>The state after \<open>fetchQuestions\<close> has got both lists of questions.\<close>

definition loaded :: "Question list \<Rightarrow> Question list \<Rightarrow> QuizState" where
  "loaded generalData specializedData =
     fst (fetchQuestions (Some (generalData, specializedData)) initialState)"

text \<open>
  Reading a property of the JSON object \<open>next_question_logic\<close>. An entry of the object
  itself is found first. Without one, the names that every object inherits from
  \<open>Object.prototype\<close> are found there, with a value that is not \<open>undefined\<close> and is the
  id of no question; every other name gives \<open>undefined\<close>.
\<close>

definition inherited_names :: "string list" where
  "inherited_names =
     [''constructor'', ''hasOwnProperty'', ''isPrototypeOf'', ''propertyIsEnumerable'',
      ''toLocaleString'', ''toString'', ''valueOf'', ''__proto__'', ''__defineGetter__'',
      ''__defineSetter__'', ''__lookupGetter__'', ''__lookupSetter__'']"

datatype property = Undefined | Own int | Inherited

definition get_property :: "(string \<rightharpoonup> int) \<Rightarrow> string \<Rightarrow> property" where
  "get_property obj name =
     (case obj name of
        Some v \<Rightarrow> Own v
      | None \<Rightarrow> if name \<in> set inherited_names then Inherited else Undefined)"

text \<open>
  The block of \<open>handleResponse\<close> that sets \<open>nextQuestionIndex\<close>. The rules are looked up
  only for a response of type string. An inherited property passes the test
  \<open>!== undefined\<close>, and no question has it as its id: \<open>findIndex\<close> gives \<open>-1\<close>. The test
  \<open>'default' in\<close> finds the entry \<open>default\<close> of the object itself, a name that is not
  inherited. Both components have this block.
\<close>

definition nextQuestionIndex :: "Question \<Rightarrow> answer \<Rightarrow> Question list \<Rightarrow> int \<Rightarrow> int" where
  "nextQuestionIndex currentQuestion response qs idx =
     (case next_question_logic currentQuestion of
        None \<Rightarrow> idx + 1
      | Some logic \<Rightarrow>
          (case (case response of Str s \<Rightarrow> get_property logic s | Num n \<Rightarrow> Undefined) of
             Own nextQuestionId \<Rightarrow> findIndex (\<lambda>q. id_q q = nextQuestionId) qs
           | Inherited \<Rightarrow> findIndex (\<lambda>q. False) qs
           | Undefined \<Rightarrow>
               (case logic ''default'' of
                  Some nextQuestionId \<Rightarrow> findIndex (\<lambda>q. id_q q = nextQuestionId) qs
                | None \<Rightarrow> idx + 1)))"

text \<open>The lookup for the response finds an inherited property.\<close>

definition finds_inherited :: "Question \<Rightarrow> answer \<Rightarrow> bool" where
  "finds_inherited currentQuestion response =
     (case next_question_logic currentQuestion of
        None \<Rightarrow> False
      | Some logic \<Rightarrow>
          (case response of Str s \<Rightarrow> get_property logic s = Inherited | Num n \<Rightarrow> False))"

definition fetchRiskAssessment :: "risk_table \<Rightarrow> QuizState \<Rightarrow> run \<Rightarrow> jsnum \<Rightarrow> run" where
  "fetchRiskAssessment tbl state r sc =
     (let primaryCancerType = (case detectedCancerTypes state of [] \<Rightarrow> None | t # ts \<Rightarrow> Some t);
          filtered = (case primaryCancerType of
                        None \<Rightarrow> None
                      | Some t \<Rightarrow> if t \<noteq> [] \<and> t \<noteq> ''general'' then Some t else None)
      in case tbl sc filtered of
           Some data \<Rightarrow>
             ((fst r)\<lparr>riskAssessment := Some data, score := sc\<rparr>,
              snd r @ [FetchRiskAssessment sc filtered])
         | None \<Rightarrow>
             (fst r, snd r @ [FetchRiskAssessment sc filtered,
                              ConsoleError ''Error fetching risk assessment:'', Toast ''Error'']))"

text \<open>
  The questions the final score ranges over:
  \<open>[...state.generalQuestions, ...state.specializedQuestions.filter(...)]\<close>.
\<close>

definition scoredQuestions :: "QuizState \<Rightarrow> Question list" where
  "scoredQuestions state =
     generalQuestions state @
     filter (\<lambda>q. (case category q of None \<Rightarrow> [] | Some c \<Rightarrow> c) \<in> set (detectedCancerTypes state))
            (specializedQuestions state)"

text \<open>
  \<open>loadQuestionsForCancerType\<close> and \<open>loadNextCancerType\<close> call each other, and both read the
  queue of \<open>state\<close>, which the call in between does not change. The recursion is therefore
  not bounded by the queue but by the call stack: the first argument is the number of calls
  of \<open>loadNextCancerType\<close> the stack has room for, and with no room the call raises a
  RangeError (\<open>None\<close>).

  \<open>loadNextCancerType\<close> is asynchronous and \<open>loadQuestionsForCancerType\<close> does not await it.
  So an exception of the call is the rejection of a promise that nobody reads, and the
  caller goes on. And the call returns at its first \<open>await\<close>, in the branch of the empty
  queue, once it has called \<open>saveAllResponses\<close>: the statements after it
  (\<open>loadNextCancerType_rest\<close>) are run when the code that is running has finished. The
  boolean of a result says that they are still to be run.
\<close>

fun loadQuestionsForCancerType :: "nat \<Rightarrow> QuizState \<Rightarrow> run \<Rightarrow> string \<Rightarrow> run \<times> bool"
  and loadNextCancerType :: "nat \<Rightarrow> QuizState \<Rightarrow> run \<Rightarrow> (run \<times> bool) option" where
  "loadQuestionsForCancerType n state r cancerType =
     (let specializedQuestionsForType =
            filter (\<lambda>q. category q = Some cancerType) (specializedQuestions state)
      in if 0 < length specializedQuestionsForType then
           (((fst r)\<lparr>questions := specializedQuestionsForType, currentQuestionIndex := 0,
                     quizPhase := ''specialized''\<rparr>, snd r), False)
         else (case loadNextCancerType n state r of
                 None \<Rightarrow> (r, False)
               | Some res \<Rightarrow> res))"
| "loadNextCancerType 0 state r = None"
| "loadNextCancerType (Suc n) state r =
     (case cancerTypesQueue state of
        nextType # remainingQueue \<Rightarrow>
          (case loadQuestionsForCancerType n state
                  ((fst r)\<lparr>currentCancerType := Some nextType,
                           cancerTypesQueue := remainingQueue\<rparr>, snd r) nextType of
             (r', pending) \<Rightarrow> Some ((fst r', snd r' @ [Toast ''Moving to Next Section'']), pending))
      | [] \<Rightarrow> Some ((fst r, snd r @ [SaveAllResponses (responses state)]), True))"

definition loadNextCancerType_rest :: "quizUtils \<Rightarrow> risk_table \<Rightarrow> QuizState \<Rightarrow> run \<Rightarrow> run" where
  "loadNextCancerType_rest U tbl state r =
     (let finalScore = calculateRiskScore U (responses state) (scoredQuestions state);
          r' = fetchRiskAssessment tbl state
                 (fst r, snd r @ [CalculateRiskScore (responses state) (scoredQuestions state)])
                 finalScore
      in ((fst r')\<lparr>quizCompleted := True, allCancerTypesProcessed := True,
                  score := finalScore\<rparr>, snd r'))"

text \<open>The end of the running code: what is still to be run of \<open>loadNextCancerType\<close> is run.\<close>

definition resume :: "quizUtils \<Rightarrow> risk_table \<Rightarrow> QuizState \<Rightarrow> run \<times> bool \<Rightarrow> run" where
  "resume U tbl state res =
     (case res of (r, pending) \<Rightarrow> if pending then loadNextCancerType_rest U tbl state r else r)"

definition processGeneralPhaseCompletion ::
    "nat \<Rightarrow> quizUtils \<Rightarrow> risk_table \<Rightarrow> QuizState \<Rightarrow> run \<Rightarrow> responses \<Rightarrow> run" where
  "processGeneralPhaseCompletion n U tbl state r rs =
     (case analyzeGeneralResponses U rs (generalQuestions state) of
        (detectedTypes, positive) \<Rightarrow>
          (if \<not> positive then
             ((fst r)\<lparr>quizCompleted := True, hasPositiveResponses := False,
                      allCancerTypesProcessed := True\<rparr>,
              snd r @ [SaveAllResponses rs])
           else
             (let specificTypes = filter (\<lambda>t. t \<noteq> ''general'') detectedTypes;
                  typesToProcess = (if 0 < length specificTypes then specificTypes else detectedTypes)
              in case typesToProcess of
                   t # ts \<Rightarrow>
                     (case loadQuestionsForCancerType n state
                             ((fst r)\<lparr>detectedCancerTypes := typesToProcess,
                                      cancerTypesQueue := ts,
                                      currentCancerType := Some t,
                                      hasPositiveResponses := True\<rparr>, snd r) t of
                        (r', pending) \<Rightarrow>
                          resume U tbl state ((fst r', snd r' @ [Toast ''Phase Complete'']), pending))
                 | [] \<Rightarrow>
                     (let sc = calculateRiskScore U rs (generalQuestions state);
                          r' = fetchRiskAssessment tbl state
                                 (fst r, snd r @ [SaveAllResponses rs,
                                                  CalculateRiskScore rs (generalQuestions state)])
                                 sc
                      in ((fst r')\<lparr>quizCompleted := True, score := sc,
                                  allCancerTypesProcessed := True,
                                  hasPositiveResponses := True\<rparr>, snd r')))))"

text \<open>
  The branches of \<open>handleResponse\<close> for a next index outside the list of questions: the end
  of the general phase, the next cancer type of the queue, or the end of the quiz. The
  handler runs on a stack with room for one call of \<open>loadNextCancerType\<close> and \<open>n\<close> more, so
  that its own call returns. It awaits that call: what is still to be run of it is run in
  place.
\<close>

definition afterLastQuestion ::
    "nat \<Rightarrow> quizUtils \<Rightarrow> risk_table \<Rightarrow> QuizState \<Rightarrow> run \<Rightarrow> responses \<Rightarrow> run option" where
  "afterLastQuestion n U tbl state r newResponses =
     (if quizPhase state = ''general'' then
        Some (processGeneralPhaseCompletion (Suc n) U tbl state r newResponses)
      else if 0 < length (cancerTypesQueue state) then
        map_option (resume U tbl state) (loadNextCancerType (Suc n) state r)
      else
        (let finalScore = calculateRiskScore U newResponses (scoredQuestions state);
             r' = fetchRiskAssessment tbl state
                    (fst r, snd r @ [SaveAllResponses newResponses,
                                     CalculateRiskScore newResponses (scoredQuestions state)])
                    finalScore
         in Some ((fst r')\<lparr>quizCompleted := True, score := finalScore,
                          allCancerTypesProcessed := True\<rparr>, snd r')))"

text \<open>
  The \<open>try\<close> block of \<open>handleResponse\<close>. With no question at the current index,
  \<open>currentQuestion\<close> is \<open>undefined\<close> and reading its property raises a TypeError: \<open>Inl\<close>.
\<close>

definition handleResponse_try ::
    "nat \<Rightarrow> quizUtils \<Rightarrow> risk_table \<Rightarrow> QuizState \<Rightarrow> int \<Rightarrow> answer \<Rightarrow> string + run option" where
  "handleResponse_try n U tbl state questionId response =
     (let newResponses = (responses state)(questionId \<mapsto> response);
          r = (state\<lparr>responses := newResponses\<rparr>, []);
          idx = currentQuestionIndex state
      in if 0 \<le> idx \<and> idx < int (length (questions state)) then
           (let currentQuestion = questions state ! nat idx;
                nxt = nextQuestionIndex currentQuestion response (questions state) idx
            in if nxt < int (length (questions state)) \<and> 0 \<le> nxt then
                 Inr (Some ((fst r)\<lparr>currentQuestionIndex := nxt\<rparr>, snd r))
               else Inr (afterLastQuestion n U tbl state r newResponses))
         else Inl ''TypeError'')"

text \<open>
  \<open>handleResponse\<close>: the \<open>catch\<close> clause reports every exception by a toast, after the
  response has been stored.
\<close>

definition handleResponse ::
    "nat \<Rightarrow> quizUtils \<Rightarrow> risk_table \<Rightarrow> QuizState \<Rightarrow> int \<Rightarrow> answer \<Rightarrow> run option" where
  "handleResponse n U tbl state questionId response =
     (case handleResponse_try n U tbl state questionId response of
        Inr res \<Rightarrow> res
      | Inl err \<Rightarrow>
          Some (state\<lparr>responses := (responses state)(questionId \<mapsto> response)\<rparr>,
                [ConsoleError ''Error handling response:'', Toast ''Error'']))"

definition resetQuiz :: "QuizState \<Rightarrow> run" where
  "resetQuiz state =
     (state\<lparr>currentQuestionIndex := 0, responses := Map.empty, quizCompleted := False,
            score := Fin 0, riskAssessment := None, quizPhase := ''general'',
            detectedCancerTypes := [], currentCancerType := None,
            allCancerTypesProcessed := False, cancerTypesQueue := [],
            hasPositiveResponses := True, questions := generalQuestions state\<rparr>, [])"

section \<open>The quiz with a single cancer type\<close>

text \<open>
  The second component keeps one state cell for each value (fields with the suffix \<open>_c\<close>),
  and has its detector and its scorer inside. Its functions carry the suffix \<open>_single\<close>.
\<close>

record QuizCells =
  isLoading_c :: bool
  questions_c :: "Question list"
  generalQuestions_c :: "Question list"
  specializedQuestions_c :: "Question list"
  currentQuestionIndex_c :: int
  responses_c :: responses
  quizCompleted_c :: bool
  score_c :: jsnum
  riskAssessment_c :: "RiskAssessment option"
  quizPhase_c :: string
  detectedCancerType_c :: "string option"

type_synonym run_c = "QuizCells \<times> event list"

definition calculateRiskScore_single ::
    "js_conv \<Rightarrow> risk_table \<Rightarrow> QuizCells \<Rightarrow> run_c \<Rightarrow> responses \<Rightarrow> run_c" where
  "calculateRiskScore_single cv tbl cells r allResponses =
     (let currentQuestionsSet =
            (if quizPhase_c cells = ''specialized''
             then generalQuestions_c cells @ questions_c cells
             else questions_c cells);
          total = totalScore cv allResponses currentQuestionsSet;
          filtered = (case detectedCancerType_c cells of
                        None \<Rightarrow> None
                      | Some t \<Rightarrow> if t \<noteq> [] \<and> t \<noteq> ''general'' then Some t else None);
          evs = snd r @ [CalculateRiskScore allResponses currentQuestionsSet,
                         FetchRiskAssessment total filtered]
      in case tbl total filtered of
           Some data \<Rightarrow> ((fst r)\<lparr>score_c := total, riskAssessment_c := Some data\<rparr>, evs)
         | None \<Rightarrow>
             ((fst r)\<lparr>score_c := total\<rparr>,
              evs @ [ConsoleError ''Error fetching risk assessment:'', Toast ''Error'']))"

text \<open>
  The first loop of \<open>analyzeGeneralResponses\<close>: the table \<open>cancerTypeScores\<close>. A hint counts
  for a name that the table has as its own (\<open>hasOwnProperty\<close>).
\<close>

definition addHint :: "(string \<times> jsnum) list \<Rightarrow> string \<times> rat \<Rightarrow> (string \<times> jsnum) list" where
  "addHint cancerTypeScores hint =
     map (\<lambda>(t, v). if t = fst hint then (t, js_add v (Fin (snd hint))) else (t, v))
         cancerTypeScores"

definition cancerTypeScores :: "responses \<Rightarrow> Question list \<Rightarrow> (string \<times> jsnum) list" where
  "cancerTypeScores generalResponses qs =
     foldl (\<lambda>scores question.
              case generalResponses (id_q question) of
                None \<Rightarrow> scores
              | Some response \<Rightarrow>
                  (if falsy response \<or> response = Str ''No'' then scores
                   else (case cancer_type_hints (options question) of
                           None \<Rightarrow> scores
                         | Some hints \<Rightarrow> foldl addHint scores hints)))
           [(''skin'', Fin 0), (''kidney'', Fin 0), (''brain'', Fin 0), (''oral'', Fin 0),
            (''breast'', Fin 0)] qs"

text \<open>The second loop, and the default: the type of the highest score (\<open>None\<close> is \<open>null\<close>), or
  \<open>general\<close>.\<close>

definition detectedType :: "(string \<times> jsnum) list \<Rightarrow> string option" where
  "detectedType scores =
     (case foldl (\<lambda>(maxScore, found) (t, v).
                    if js_less maxScore v then (v, Some t) else (maxScore, found))
                 (Fin 0, None) scores of
        (maxScore, found) \<Rightarrow> (if maxScore = Fin 0 then Some ''general'' else found))"

definition analyzeGeneralResponses_single ::
    "js_conv \<Rightarrow> risk_table \<Rightarrow> QuizCells \<Rightarrow> run_c \<Rightarrow> responses \<Rightarrow> run_c" where
  "analyzeGeneralResponses_single cv tbl cells r generalResponses =
     (let dt = detectedType (cancerTypeScores generalResponses (generalQuestions_c cells));
          r1 = ((fst r)\<lparr>detectedCancerType_c := dt\<rparr>, snd r);
          specializedQuestionsForType =
            filter (\<lambda>q. dt \<noteq> None \<and> category q = dt) (specializedQuestions_c cells)
      in if 0 < length specializedQuestionsForType then
           ((fst r1)\<lparr>questions_c := specializedQuestionsForType, currentQuestionIndex_c := 0,
                     quizPhase_c := ''specialized''\<rparr>, snd r1 @ [Toast ''Phase Complete''])
         else
           (let r2 = calculateRiskScore_single cv tbl cells
                       (fst r1, snd r1 @ [SaveAllResponses generalResponses]) generalResponses
            in ((fst r2)\<lparr>quizCompleted_c := True\<rparr>, snd r2)))"

definition handleResponse_single_try ::
    "js_conv \<Rightarrow> risk_table \<Rightarrow> QuizCells \<Rightarrow> int \<Rightarrow> answer \<Rightarrow> string + run_c" where
  "handleResponse_single_try cv tbl cells questionId response =
     (let newResponses = (responses_c cells)(questionId \<mapsto> response);
          r = (cells\<lparr>responses_c := newResponses\<rparr>, []);
          idx = currentQuestionIndex_c cells
      in if 0 \<le> idx \<and> idx < int (length (questions_c cells)) then
           (let currentQuestion = questions_c cells ! nat idx;
                nxt = nextQuestionIndex currentQuestion response (questions_c cells) idx
            in if nxt < int (length (questions_c cells)) \<and> 0 \<le> nxt then
                 Inr ((fst r)\<lparr>currentQuestionIndex_c := nxt\<rparr>, snd r)
               else if quizPhase_c cells = ''general'' then
                 Inr (analyzeGeneralResponses_single cv tbl cells r newResponses)
               else
                 (let r2 = calculateRiskScore_single cv tbl cells
                             (fst r, snd r @ [SaveAllResponses newResponses]) newResponses
                  in Inr ((fst r2)\<lparr>quizCompleted_c := True\<rparr>, snd r2)))
         else Inl ''TypeError'')"

definition handleResponse_single ::
    "js_conv \<Rightarrow> risk_table \<Rightarrow> QuizCells \<Rightarrow> int \<Rightarrow> answer \<Rightarrow> run_c" where
  "handleResponse_single cv tbl cells questionId response =
     (case handleResponse_single_try cv tbl cells questionId response of
        Inr res \<Rightarrow> res
      | Inl err \<Rightarrow>
          (cells\<lparr>responses_c := (responses_c cells)(questionId \<mapsto> response)\<rparr>,
           [ConsoleError ''Error handling response:'', Toast ''Error'']))"

definition resetQuiz_single :: "QuizCells \<Rightarrow> run_c" where
  "resetQuiz_single cells =
     (cells\<lparr>currentQuestionIndex_c := 0, responses_c := Map.empty, quizCompleted_c := False,
            score_c := Fin 0, riskAssessment_c := None, quizPhase_c := ''general'',
            detectedCancerType_c := None, questions_c := generalQuestions_c cells\<rparr>, [])"

section \<open>The detector of the queue component\<close>

text \<open>
  Modelled from the spec: the function \<open>analyzeGeneralResponses\<close> of \<open>@/utils/quizUtils\<close>,
  which returns the detected types and the flag \<open>hasPositiveResponses\<close>, is missing from
  the sources. The specification (4.2, \<open>detect\<close>) gives it as follows. An answer counts
  unless it is absent, empty or \<open>No\<close>. Each counting answer of a question with hints adds
  every hint's weight to the accumulator of its label, the labels in the order in which
  they are met. The flag is true iff some question has a counting answer. With no
  accumulator above zero the candidates are \<open>general\<close> alone; otherwise they are the labels
  with a positive score, the higher score first and the earlier label first among equals,
  without \<open>general\<close> when another label is there.
\<close>

definition negative_sentinel :: "answer \<Rightarrow> bool" where
  "negative_sentinel a = (a = Str ''No'' \<or> a = Str [])"

fun accumulate :: "(string \<times> rat) list \<Rightarrow> string \<times> rat \<Rightarrow> (string \<times> rat) list" where
  "accumulate [] (l, w) = [(l, w)]"
| "accumulate ((l', v) # acc) (l, w) =
     (if l' = l then (l', v + w) # acc else (l', v) # accumulate acc (l, w))"

definition accumulators :: "responses \<Rightarrow> Question list \<Rightarrow> (string \<times> rat) list" where
  "accumulators generalAnswers qs =
     foldl (\<lambda>acc q.
              case generalAnswers (id_q q) of
                None \<Rightarrow> acc
              | Some a \<Rightarrow>
                  (if negative_sentinel a then acc
                   else (case cancer_type_hints (options q) of
                           None \<Rightarrow> acc
                         | Some hints \<Rightarrow> foldl accumulate acc hints)))
           [] qs"

definition anyPositive :: "responses \<Rightarrow> Question list \<Rightarrow> bool" where
  "anyPositive generalAnswers qs =
     list_ex (\<lambda>q. case generalAnswers (id_q q) of
                     None \<Rightarrow> False
                   | Some a \<Rightarrow> \<not> negative_sentinel a) qs"

definition detect :: "responses \<Rightarrow> Question list \<Rightarrow> string list \<times> bool" where
  "detect generalAnswers qs =
     (let acc = accumulators generalAnswers qs;
          labels = map fst (filter (\<lambda>p. 0 < snd p) (sort_key (\<lambda>p. - snd p) acc));
          specific = filter (\<lambda>l. l \<noteq> ''general'') labels
      in (if foldl max 0 (map snd acc) = 0 then [''general'']
          else if specific \<noteq> [] then specific else labels,
          anyPositive generalAnswers qs))"

text \<open>
  Modelled from the spec: the scorer \<open>calculateRiskScore\<close> of \<open>@/utils/quizUtils\<close> is missing
  from the sources as well. The specification (4.4) describes the loop that the
  single-type component has in its sources; the examples use that loop, applied to the
  questions it is given, and the detector above.
\<close>

definition utils :: "js_conv \<Rightarrow> quizUtils" where
  "utils cv = \<lparr> analyzeGeneralResponses = detect, calculateRiskScore = totalScore cv \<rparr>"

section \<open>The branching resolver of the specification\<close>

text \<open>
  What the specification (4.1) asks of \<open>resolveNext\<close>. A literal rule matches an answer
  that is the same string; a number is no string. The position of a target is the place of
  the first question of the active set with that id, if there is one.
\<close>

datatype resolved = Index nat | EndOfSet

definition position_of :: "int \<Rightarrow> Question list \<Rightarrow> nat option" where
  "position_of target activeSet =
     (if target \<in> id_q ` set activeSet
      then Some (length (takeWhile (\<lambda>q. id_q q \<noteq> target) activeSet))
      else None)"

definition branch_target :: "Question \<Rightarrow> answer \<Rightarrow> int option" where
  "branch_target question a =
     (case next_question_logic question of
        None \<Rightarrow> None
      | Some branchRules \<Rightarrow>
          (case (case a of Str s \<Rightarrow> branchRules s | Num n \<Rightarrow> None) of
             Some target \<Rightarrow> Some target
           | None \<Rightarrow> branchRules ''default''))"

definition resolveNext :: "Question \<Rightarrow> answer \<Rightarrow> Question list \<Rightarrow> int \<Rightarrow> resolved" where
  "resolveNext question a activeSet currentIndex =
     (case branch_target question a of
        Some target \<Rightarrow>
          (case position_of target activeSet of
             Some i \<Rightarrow> Index i
           | None \<Rightarrow> EndOfSet)
      | None \<Rightarrow>
          (if int (length activeSet) \<le> currentIndex + 1 \<or> currentIndex + 1 < 0 then EndOfSet
           else Index (nat (currentIndex + 1))))"

section \<open>Screens and reachable states\<close>

text \<open>What the component renders: the choice made in its \<open>return\<close>.\<close>

datatype screen = Loading | QuizResults | HealthyResult | QuizComponent | NoQuestions

definition render :: "QuizState \<Rightarrow> screen" where
  "render state =
     (if isLoading state then Loading
      else if quizCompleted state then
        (if hasPositiveResponses state then QuizResults else HealthyResult)
      else if 0 < length (questions state) then QuizComponent
      else NoQuestions)"

text \<open>What is set when the questions are loaded, and by nothing else.\<close>

definition loadedPart :: "QuizState \<Rightarrow> bool \<times> Question list \<times> Question list" where
  "loadedPart state = (isLoading state, generalQuestions state, specializedQuestions state)"

text \<open>
  The states of a session that has loaded the general questions \<open>G\<close> and the others \<open>S\<close>: an
  answer can be given on the question screen, and the quiz be reset on a result screen.
\<close>

inductive reachable ::
    "quizUtils \<Rightarrow> risk_table \<Rightarrow> Question list \<Rightarrow> Question list \<Rightarrow> QuizState \<Rightarrow> bool"
  for U :: quizUtils and tbl :: risk_table and G :: "Question list" and S :: "Question list" where
  start: "reachable U tbl G S (loaded G S)"
| answer: "reachable U tbl G S state \<Longrightarrow> render state = QuizComponent \<Longrightarrow>
           handleResponse n U tbl state questionId response = Some (state', evs) \<Longrightarrow>
           reachable U tbl G S state'"
| reset: "reachable U tbl G S state \<Longrightarrow> quizCompleted state \<Longrightarrow>
          reachable U tbl G S (fst (resetQuiz state))"

section \<open>Example data\<close>

text \<open>
  The conversions used in the examples. They agree with the language on the values that
  occur there: a string of decimal digits converts to its number, the empty string to
  zero, a string that is not numeric to NaN; a number from 0 to 9 prints as its digit, the
  infinities and NaN by their names. Numeric literals with a sign, a fraction or an
  exponent, and other numbers, are outside the examples. The theorems hold for every pair
  of conversions.
\<close>

fun digits_value :: "nat \<Rightarrow> string \<Rightarrow> nat option" where
  "digits_value acc [] = Some acc"
| "digits_value acc (c # cs) =
     (let d = (of_char c :: nat)
      in if 48 \<le> d \<and> d \<le> 57 then digits_value (10 * acc + (d - 48)) cs else None)"

definition conv_digits :: js_conv where
  "conv_digits =
     \<lparr> Number_str = (\<lambda>s. case digits_value 0 s of None \<Rightarrow> NaN | Some n \<Rightarrow> Fin (of_nat n)),
       toString_num = (\<lambda>n. case n of
                               Fin a \<Rightarrow> [char_of (48 + nat \<lfloor>a\<rfloor>)]
                             | PosInf \<Rightarrow> ''Infinity''
                             | NegInf \<Rightarrow> ''-Infinity''
                             | NaN \<Rightarrow> ''NaN'') \<rparr>"

definition no_options :: QuestionOption where
  "no_options = \<lparr> min_q = None, max_q = None, step_q = None, options_q = None,
                  cancer_type_hints = None \<rparr>"

definition boolean_question :: "int \<Rightarrow> string \<Rightarrow> (string \<times> rat) list option \<Rightarrow> Question" where
  "boolean_question i cat hints =
     \<lparr> id_q = i, question_text = ''symptom'', question_type = ''boolean'',
       options = no_options\<lparr>cancer_type_hints := hints\<rparr>, weight = 10,
       category = Some cat, next_question_logic = None \<rparr>"

definition range_question :: "int \<Rightarrow> rat \<Rightarrow> rat \<Rightarrow> Question" where
  "range_question i mn mx =
     \<lparr> id_q = i, question_text = ''level'', question_type = ''range'',
       options = no_options\<lparr>min_q := Some mn, max_q := Some mx, step_q := Some 1\<rparr>,
       weight = 10, category = Some ''general'', next_question_logic = None \<rparr>"


text \<open>No row of \<open>risk_assessments\<close> matches: the query reports an error.\<close>

definition no_rows :: risk_table where
  "no_rows = (\<lambda>sc filtered. None)"



text \<open>A range question whose bounds are both 5, answered 7, and a boolean question.\<close>

definition degenerate_questions :: "Question list" where
  "degenerate_questions = [range_question 1 5 5, boolean_question 2 ''general'' None]"

definition degenerate_answers :: responses where
  "degenerate_answers = [1 \<mapsto> Num (Fin 7), 2 \<mapsto> Str ''Yes'']"

text \<open>
  Three general questions; the first sends the answer \<open>Yes\<close> to a question 99 that does not
  exist, the answer \<open>5\<close> to question 3, and every other answer to question 2.
\<close>

definition branching_question :: Question where
  "branching_question =
     (boolean_question 1 ''general'' None)
       \<lparr>next_question_logic := Some [''Yes'' \<mapsto> 99, ''5'' \<mapsto> 3, ''default'' \<mapsto> 2]\<rparr>"

definition branching_questions :: "Question list" where
  "branching_questions =
     [branching_question, boolean_question 2 ''general'' None,
      boolean_question 3 ''general'' None]"

text \<open>Three general questions; the first sends every answer to question 3.\<close>

definition default_question :: Question where
  "default_question =
     (boolean_question 1 ''general'' None)\<lparr>next_question_logic := Some [''default'' \<mapsto> 3]\<rparr>"

definition default_questions :: "Question list" where
  "default_questions =
     [default_question, boolean_question 2 ''general'' None,
      boolean_question 3 ''general'' None]"

text \<open>
  Two general questions, the first with hints for \<open>skin\<close> and \<open>oral\<close>, and one question for
  each of the types \<open>oral\<close> and \<open>skin\<close>.
\<close>

definition hinted_questions :: "Question list" where
  "hinted_questions =
     [boolean_question 1 ''general'' (Some [(''skin'', 5), (''oral'', 3)]),
      boolean_question 2 ''general'' None]"

definition oral_question :: Question where
  "oral_question = boolean_question 10 ''oral'' None"

definition skin_question :: Question where
  "skin_question = boolean_question 11 ''skin'' None"

text \<open>The state in which the second general question is shown, the first answered.\<close>

definition second_question :: "Question list \<Rightarrow> answer \<Rightarrow> QuizState" where
  "second_question specializedData a =
     (loaded hinted_questions specializedData)
       \<lparr>responses := [1 \<mapsto> a], currentQuestionIndex := 1\<rparr>"

text \<open>A table with one row, for every score and no cancer type.\<close>

definition low_risk :: RiskAssessment where
  "low_risk =
     \<lparr> id_r = 1, risk_level = ''low'', advice = ''keep well'', min_score = 0, max_score = 100,
       foods_to_eat = [], foods_to_avoid = [], cancer_type = None \<rparr>"

definition one_row :: risk_table where
  "one_row = (\<lambda>sc filtered. if filtered = None then Some low_risk else None)"

text \<open>
  The state in which the question about \<open>skin\<close> is shown, both general questions answered
  and \<open>oral\<close> waiting in the queue.
\<close>

definition skin_phase :: QuizState where
  "skin_phase =
     (second_question [skin_question] (Str ''Yes''))
       \<lparr>responses := [1 \<mapsto> Str ''Yes'', 2 \<mapsto> Str ''No''],
        detectedCancerTypes := [''skin'', ''oral''], cancerTypesQueue := [''oral''],
        currentCancerType := Some ''skin'', hasPositiveResponses := True,
        questions := [skin_question], currentQuestionIndex := 0,
        quizPhase := ''specialized''\<rparr>"

section \<open>Properties of the arithmetic\<close>


lemma binary64_zero [simp]: "binary64 0 = Fin 0"
  by (simp add: binary64_def)

lemma ilog2_examples:
  "ilog2 1 = 0" "ilog2 2 = 1" "ilog2 5 = 2" "ilog2 7 = 2" "ilog2 10 = 3" "ilog2 15 = 3"
  "ilog2 20 = 4" "ilog2 25 = 4" "ilog2 31 = 4" "ilog2 (1 / 2) = - 1" "ilog2 (7 / 10) = - 1"
  "ilog2 (141863388262170615 / 4503599627370496) = 4"
  by code_simp+

text \<open>These numbers are doubles.\<close>

lemma binary64_examples:
  "binary64 1 = Fin 1" "binary64 2 = Fin 2" "binary64 5 = Fin 5" "binary64 7 = Fin 7"
  "binary64 10 = Fin 10" "binary64 15 = Fin 15" "binary64 20 = Fin 20" "binary64 25 = Fin 25"
  "binary64 31 = Fin 31" "binary64 (1 / 2) = Fin (1 / 2)"
  by (simp_all add: binary64_def ilog2_examples round_even_def Let_def)


section \<open>Properties of the scorer\<close>

lemma scoreStep_falsy_update:
  "falsy a \<Longrightarrow> scoreStep cv (rs(k \<mapsto> a)) t q = scoreStep cv (rs(k := None)) t q"
  by (simp add: scoreStep_def)

lemma totalScore_falsy_update:
  "falsy a \<Longrightarrow> totalScore cv (rs(k \<mapsto> a)) qs = totalScore cv (rs(k := None)) qs"
  unfolding totalScore_def
  by (rule foldl_cong) (simp_all add: scoreStep_falsy_update)

text \<open>
  C10: a recorded answer that is falsy (the number 0, NaN, the empty string) counts as no
  answer at all. The score is the one obtained with the answer removed, and the question
  leaves the running total as it is, whatever its type, weight and bounds.
\<close>

theorem falsy_answer_scores_as_unanswered:
  assumes "falsy a"
  shows "totalScore cv (rs(k \<mapsto> a)) qs = totalScore cv (rs(k := None)) qs
         \<and> scoreStep cv (rs(id_q q \<mapsto> a)) t q = t"
  using assms by (simp add: totalScore_falsy_update) (simp add: scoreStep_def)

text \<open>
  A range question from \<open>-10\<close> to \<open>10\<close> of weight 10, answered with the number 0: the
  formula gives 5, the scorer adds nothing.
\<close>

theorem falsy_answer_scores_as_unanswered_witness:
  "falsy (Num (Fin 0))
   \<and> totalScore conv_digits (Map.empty(1 \<mapsto> Num (Fin 0))) [range_question 1 (- 10) 10] = Fin 0
   \<and> scoreStep conv_digits (Map.empty(1 \<mapsto> Num (Fin 0))) (Fin 3) (range_question 1 (- 10) 10) = Fin 3
   \<and> spec_contribution conv_digits (range_question 1 (- 10) 10) (Num (Fin 0)) = 5"
  using falsy_answer_scores_as_unanswered
          [of "Num (Fin 0)" conv_digits Map.empty 1 "[range_question 1 (- 10) 10]"
              "range_question 1 (- 10) 10" "Fin 3"]
  by (simp add: totalScore_def scoreStep_def range_question_def no_options_def
        spec_contribution_def)




lemma js_add_exact: "exact (a + b) \<Longrightarrow> js_add (Fin a) (Fin b) = Fin (a + b)"
  by (simp add: exact_def)









lemma js_add_not_finite:
  "\<not> is_finite x \<or> \<not> is_finite y \<Longrightarrow> \<not> is_finite (js_add x y)"
  by (cases x; cases y) auto

lemma js_div_zero_not_finite: "\<not> is_finite (js_div x (Fin 0))"
  by (cases x) (auto simp: inf_signed_def)

lemma js_mul_not_finite: "\<not> is_finite x \<Longrightarrow> \<not> is_finite (js_mul x (Fin w))"
  by (cases x) (auto simp: inf_signed_def)

lemma Math_round_not_finite: "\<not> is_finite x \<Longrightarrow> \<not> is_finite (Math_round x)"
  by (cases x) auto

lemma degenerate_contribution:
  assumes "question_type q = ''range''"
    and "min_q (options q) = Some m" and "max_q (options q) = Some m"
  shows "\<exists>c. contribution cv q a = Some c \<and> \<not> is_finite c"
  using assms
  by (simp add: contribution_def js_sub_def Math_round_not_finite js_mul_not_finite
        js_div_zero_not_finite)

lemma scoreStep_keeps_not_finite:
  "\<not> is_finite t \<Longrightarrow> \<not> is_finite (scoreStep cv rs t q)"
  by (auto simp: scoreStep_def js_add_not_finite split: option.splits)

lemma foldl_scoreStep_keeps_not_finite:
  "\<not> is_finite t \<Longrightarrow> \<not> is_finite (foldl (scoreStep cv rs) t qs)"
  by (induction qs arbitrary: t) (simp_all add: scoreStep_keeps_not_finite)

lemma degenerate_step:
  assumes "question_type q = ''range''"
    and "min_q (options q) = Some m" and "max_q (options q) = Some m"
    and "rs (id_q q) = Some a" and "\<not> falsy a"
  shows "\<not> is_finite (scoreStep cv rs t q)"
proof -
  from degenerate_contribution [OF assms(1-3)]
  obtain c where "contribution cv q a = Some c" and "\<not> is_finite c"
    by blast
  with assms(4,5) show ?thesis
    by (simp add: scoreStep_def js_add_not_finite)
qed

text \<open>
  C7, as the claim states it: a range question with \<open>max = min\<close> contributes zero and the
  other contributions make up the score. With the bounds 5 and 5 and the answer 7 the
  score of the two questions is \<open>Infinity\<close>, while the boolean question alone scores 10.
\<close>

theorem degenerate_range_counterexample:
  "totalScore conv_digits degenerate_answers degenerate_questions = PosInf
   \<and> totalScore conv_digits degenerate_answers (tl degenerate_questions) = Fin 10"
  by (simp add: totalScore_def scoreStep_def contribution_def degenerate_answers_def
        degenerate_questions_def range_question_def boolean_question_def no_options_def
        js_sub_def inf_signed_def binary64_examples)

text \<open>
  C7, amended: scoring goes on to the end, but nothing guards the division. A range
  question with \<open>max = min\<close> and a truthy answer adds \<open>Infinity\<close>, \<open>-Infinity\<close> or NaN, and
  the score of any list of questions that contains it is not a finite number.
\<close>

theorem degenerate_range_score_not_finite:
  assumes "q \<in> set qs" and "question_type q = ''range''"
    and "min_q (options q) = Some m" and "max_q (options q) = Some m"
    and "rs (id_q q) = Some a" and "\<not> falsy a"
  shows "\<not> is_finite (totalScore cv rs qs)"
proof -
  from assms(1) obtain before after where qs: "qs = before @ q # after"
    by (auto simp: in_set_conv_decomp)
  have "\<not> is_finite (scoreStep cv rs (foldl (scoreStep cv rs) (Fin 0) before) q)"
    using assms(2-6) by (rule degenerate_step)
  then show ?thesis
    by (simp add: totalScore_def qs foldl_scoreStep_keeps_not_finite)
qed

theorem degenerate_range_score_not_finite_witness:
  "range_question 1 5 5 \<in> set degenerate_questions
   \<and> question_type (range_question 1 5 5) = ''range''
   \<and> min_q (options (range_question 1 5 5)) = Some 5
   \<and> max_q (options (range_question 1 5 5)) = Some 5
   \<and> degenerate_answers (id_q (range_question 1 5 5)) = Some (Num (Fin 7))
   \<and> \<not> falsy (Num (Fin 7))
   \<and> \<not> is_finite (totalScore conv_digits degenerate_answers degenerate_questions)"
proof -
  have hyps: "range_question 1 5 5 \<in> set degenerate_questions"
    "question_type (range_question 1 5 5) = ''range''"
    "min_q (options (range_question 1 5 5)) = Some 5"
    "max_q (options (range_question 1 5 5)) = Some 5"
    "degenerate_answers (id_q (range_question 1 5 5)) = Some (Num (Fin 7))"
    "\<not> falsy (Num (Fin 7))"
    by (simp_all add: degenerate_questions_def degenerate_answers_def range_question_def
          no_options_def)
  from hyps
    degenerate_range_score_not_finite
      [of "range_question 1 5 5" degenerate_questions 5 degenerate_answers "Num (Fin 7)"
          conv_digits]
  show ?thesis
    by blast
qed

section \<open>Properties of the branching\<close>

lemma findIndex_lower: "- 1 \<le> findIndex P xs"
  by (induction xs) (auto simp: Let_def)

lemma findIndex_none: "\<forall>x \<in> set xs. \<not> P x \<Longrightarrow> findIndex P xs = - 1"
  by (induction xs) auto

lemma findIndex_some:
  "\<exists>x \<in> set xs. P x \<Longrightarrow> findIndex P xs = int (length (takeWhile (\<lambda>x. \<not> P x) xs))"
proof (induction xs)
  case Nil
  then show ?case by simp
next
  case (Cons x xs)
  show ?case
  proof (cases "P x")
    case True
    then show ?thesis by simp
  next
    case False
    with Cons.prems have "\<exists>y \<in> set xs. P y" by simp
    from Cons.IH [OF this] False show ?thesis
      by (simp add: Let_def)
  qed
qed

lemma findIndex_upper: "findIndex P xs < int (length xs)"
  by (induction xs) (auto simp: Let_def)

lemma findIndex_position:
  "findIndex (\<lambda>q. id_q q = t) qs =
     (case position_of t qs of None \<Rightarrow> - 1 | Some i \<Rightarrow> int i)"
proof (cases "t \<in> id_q ` set qs")
  case True
  then have "\<exists>q \<in> set qs. id_q q = t" by auto
  from findIndex_some [OF this] True show ?thesis
    by (simp add: position_of_def)
next
  case False
  then have "\<forall>q \<in> set qs. \<not> id_q q = t" by auto
  from findIndex_none [OF this] False show ?thesis
    by (simp add: position_of_def)
qed

lemma position_of_less: "position_of t qs = Some i \<Longrightarrow> i < length qs"
  using findIndex_upper [of "\<lambda>q. id_q q = t" qs] by (simp add: findIndex_position)

lemma findIndex_False: "findIndex (\<lambda>x. False) xs = - 1"
  by (rule findIndex_none) simp

lemma nextQuestionIndex_target:
  "nextQuestionIndex q a qs idx =
     (if finds_inherited q a then - 1
      else (case branch_target q a of
              Some t \<Rightarrow> findIndex (\<lambda>q'. id_q q' = t) qs
            | None \<Rightarrow> idx + 1))"
  by (simp add: nextQuestionIndex_def branch_target_def finds_inherited_def get_property_def
        findIndex_False split: option.splits answer.splits)

text \<open>An answer whose rule names a missing question, or that finds an inherited
  property, gives an index below zero.\<close>

lemma nextQuestionIndex_missing:
  assumes "branch_target q a = Some t" and "t \<notin> id_q ` set qs"
  shows "nextQuestionIndex q a qs idx = - 1"
proof -
  from assms(2) have "position_of t qs = None"
    by (simp add: position_of_def)
  with assms(1) show ?thesis
    by (simp add: nextQuestionIndex_target findIndex_position)
qed

declare loadQuestionsForCancerType.simps [simp del]

lemmas example_defs =
  loaded_def fetchQuestions_def initialState_def boolean_question_def no_options_def

lemmas branching_defs = branching_questions_def branching_question_def

lemmas handler_defs =
  handleResponse_def handleResponse_try_def nextQuestionIndex_def get_property_def
  inherited_names_def afterLastQuestion_def processGeneralPhaseCompletion_def resume_def
  loadNextCancerType_rest_def loadQuestionsForCancerType.simps scoredQuestions_def
  fetchRiskAssessment_def no_rows_def numeral_2_eq_2 Let_def

lemmas utils_defs =
  utils_def detect_def accumulators_def anyPositive_def negative_sentinel_def
  totalScore_def scoreStep_def contribution_def

text \<open>
  With a question at the current index, and an answer that finds no inherited property,
  \<open>handleResponse\<close> stores the answer and goes where the resolver of the specification
  says.
\<close>

lemma handleResponse_resolved:
  assumes "0 \<le> currentQuestionIndex state"
    and "currentQuestionIndex state < int (length (questions state))"
    and "\<not> finds_inherited (questions state ! nat (currentQuestionIndex state)) response"
  shows "handleResponse n U tbl state questionId response =
     (let newResponses = (responses state)(questionId \<mapsto> response);
          currentQuestion = questions state ! nat (currentQuestionIndex state)
      in case resolveNext currentQuestion response (questions state)
                (currentQuestionIndex state) of
           Index i \<Rightarrow>
             Some (state\<lparr>responses := newResponses, currentQuestionIndex := int i\<rparr>, [])
         | EndOfSet \<Rightarrow>
             afterLastQuestion n U tbl state (state\<lparr>responses := newResponses\<rparr>, [])
               newResponses)"
proof (cases "branch_target (questions state ! nat (currentQuestionIndex state)) response")
  case None
  with assms show ?thesis
    by (auto simp: handleResponse_def handleResponse_try_def nextQuestionIndex_target
          resolveNext_def Let_def)
next
  case target: (Some t)
  show ?thesis
  proof (cases "position_of t (questions state)")
    case None
    with target assms show ?thesis
      by (simp add: handleResponse_def handleResponse_try_def nextQuestionIndex_target
            resolveNext_def Let_def findIndex_position)
  next
    case (Some i)
    with target assms position_of_less [OF Some] show ?thesis
      by (simp add: handleResponse_def handleResponse_try_def nextQuestionIndex_target
            resolveNext_def Let_def findIndex_position)
  qed
qed

text \<open>Where the resolver of the specification says that the set has ended, so does the
  handler, whatever the answer finds.\<close>

lemma handleResponse_end_of_set:
  assumes "0 \<le> currentQuestionIndex state"
    and "currentQuestionIndex state < int (length (questions state))"
    and "resolveNext (questions state ! nat (currentQuestionIndex state)) response
           (questions state) (currentQuestionIndex state) = EndOfSet"
  shows "handleResponse n U tbl state questionId response =
           afterLastQuestion n U tbl state
             (state\<lparr>responses := (responses state)(questionId \<mapsto> response)\<rparr>, [])
             ((responses state)(questionId \<mapsto> response))"
proof (cases "finds_inherited (questions state ! nat (currentQuestionIndex state)) response")
  case True
  with assms(1,2) show ?thesis
    by (simp add: handleResponse_def handleResponse_try_def nextQuestionIndex_target Let_def)
next
  case False
  from handleResponse_resolved [OF assms(1,2) False] assms(3) show ?thesis
    by (simp add: Let_def)
qed

lemma default_example_ends:
  "\<exists>state' evs.
     handleResponse n U tbl (loaded default_questions []) 1 (Str ''toString'')
       = Some (state', evs)
     \<and> quizCompleted state' \<and> currentQuestionIndex state' = 0"
proof (cases "analyzeGeneralResponses U [1 \<mapsto> Str ''toString''] default_questions")
  case (Pair detectedTypes positive)
  show ?thesis
  proof (cases positive)
    case False
    with Pair show ?thesis
      by (simp add: handler_defs example_defs default_questions_def default_question_def)
  next
    case True
    show ?thesis
    proof (cases "if 0 < length (filter (\<lambda>t. t \<noteq> ''general'') detectedTypes)
                  then filter (\<lambda>t. t \<noteq> ''general'') detectedTypes else detectedTypes")
      case Nil
      with Pair True show ?thesis
        by (simp add: handler_defs example_defs default_questions_def default_question_def
              split: option.splits)
    next
      case (Cons t ts)
      with Pair True show ?thesis
        by (simp add: handler_defs example_defs default_questions_def default_question_def
              split: option.splits)
    qed
  qed
qed

text \<open>
  C5: the handler is to go to the question that the literal rule for the answer names,
  else to the one the default rule names, else to the next position. The code tests
  \<open>next_question_logic[response] !== undefined\<close>, which also holds for a name that the
  rules inherit from \<open>Object.prototype\<close>. With the rules \<open>{default: 3}\<close> on the first of the
  general questions 1, 2, 3 and the answer \<open>toString\<close>, the default rule names question 3,
  at index 2; the handler takes the branch of the literal rule, finds no question, and
  ends the general phase: with no other questions loaded the quiz is completed, whatever
  the detector returns.
\<close>

theorem inherited_property_ends_set:
  "resolveNext default_question (Str ''toString'') default_questions 0 = Index 2
   \<and> nextQuestionIndex default_question (Str ''toString'') default_questions 0 = - 1
   \<and> (\<forall>n U tbl. \<exists>state' evs.
         handleResponse n U tbl (loaded default_questions []) 1 (Str ''toString'')
           = Some (state', evs)
         \<and> quizCompleted state' \<and> currentQuestionIndex state' = 0)"
proof -
  have "resolveNext default_question (Str ''toString'') default_questions 0 = Index 2"
    by (simp add: resolveNext_def branch_target_def position_of_def default_questions_def
          default_question_def boolean_question_def)
  moreover
  have "nextQuestionIndex default_question (Str ''toString'') default_questions 0 = - 1"
    by (simp add: nextQuestionIndex_def get_property_def inherited_names_def
          default_question_def boolean_question_def findIndex_False)
  ultimately show ?thesis
    using default_example_ends by blast
qed

text \<open>
  C9: for an answer that is a number the literal rules are not looked at. Both handlers
  compute the next index by \<open>nextQuestionIndex\<close>, and for a number it is the index of the
  default target if there is one, else the next position, whatever the other rules are.
\<close>

theorem numeric_answer_ignores_literal_rules:
  "nextQuestionIndex q (Num v) qs idx =
     (case next_question_logic q of
        None \<Rightarrow> idx + 1
      | Some logic \<Rightarrow>
          (case logic ''default'' of
             None \<Rightarrow> idx + 1
           | Some t \<Rightarrow> findIndex (\<lambda>q'. id_q q' = t) qs))"
  by (simp add: nextQuestionIndex_def split: option.splits)

text \<open>
  The first example question has a rule for the string \<open>5\<close>: the string goes to question 3,
  the number 5 to the default, question 2.
\<close>

theorem numeric_answer_ignores_literal_rules_witness:
  "nextQuestionIndex branching_question (Num (Fin 5)) branching_questions 0 = 1
   \<and> nextQuestionIndex branching_question (Str ''5'') branching_questions 0 = 2"
  using numeric_answer_ignores_literal_rules
          [of branching_question "Fin 5" branching_questions 0]
  by (simp add: nextQuestionIndex_def get_property_def branching_defs boolean_question_def)

lemma branching_example_run:
  "handleResponse 2 (utils conv_digits) no_rows (loaded branching_questions []) 1 (Str ''Yes'')
   = Some ((loaded branching_questions [])
             \<lparr>responses := [1 \<mapsto> Str ''Yes''], detectedCancerTypes := [''general''],
              cancerTypesQueue := [], currentCancerType := Some ''general'',
              hasPositiveResponses := True, quizCompleted := True,
              allCancerTypesProcessed := True, score := Fin 0\<rparr>,
           [SaveAllResponses Map.empty, Toast ''Phase Complete'',
            CalculateRiskScore Map.empty branching_questions,
            FetchRiskAssessment (Fin 0) None,
            ConsoleError ''Error fetching risk assessment:'', Toast ''Error''])"
  by (simp add: handler_defs utils_defs example_defs branching_defs)

text \<open>
  C3, as the claim states it: a rule whose target is missing makes the engine advance to
  the next position. In the example the answer \<open>Yes\<close> to the first of three general
  questions names the missing question 99; the engine does not go on to the second
  question but ends the general phase, and here the whole quiz.
\<close>

theorem missing_target_counterexample:
  "handleResponse 2 (utils conv_digits) no_rows (loaded branching_questions []) 1 (Str ''Yes'')
   = Some ((loaded branching_questions [])
             \<lparr>responses := [1 \<mapsto> Str ''Yes''], detectedCancerTypes := [''general''],
              cancerTypesQueue := [], currentCancerType := Some ''general'',
              hasPositiveResponses := True, quizCompleted := True,
              allCancerTypesProcessed := True, score := Fin 0\<rparr>,
           [SaveAllResponses Map.empty, Toast ''Phase Complete'',
            CalculateRiskScore Map.empty branching_questions,
            FetchRiskAssessment (Fin 0) None,
            ConsoleError ''Error fetching risk assessment:'', Toast ''Error''])"
  by (rule branching_example_run)

text \<open>
  C3, amended: when the rule that applies to the answer names a question that is not in
  the active set, the \<open>try\<close> block raises nothing, and the failed lookup counts as the end
  of the active set: the handler takes the branches for the end of the set.
\<close>

theorem missing_target_ends_set:
  assumes "0 \<le> currentQuestionIndex state"
    and "currentQuestionIndex state < int (length (questions state))"
    and "branch_target (questions state ! nat (currentQuestionIndex state)) response = Some t"
    and "t \<notin> id_q ` set (questions state)"
  shows "handleResponse_try n U tbl state questionId response =
           Inr (afterLastQuestion n U tbl state
                  (state\<lparr>responses := (responses state)(questionId \<mapsto> response)\<rparr>, [])
                  ((responses state)(questionId \<mapsto> response)))
         \<and> handleResponse n U tbl state questionId response =
             afterLastQuestion n U tbl state
               (state\<lparr>responses := (responses state)(questionId \<mapsto> response)\<rparr>, [])
               ((responses state)(questionId \<mapsto> response))"
  using assms(1,2) nextQuestionIndex_missing [OF assms(3,4)]
  by (simp add: handleResponse_def handleResponse_try_def Let_def)

theorem missing_target_ends_set_witness:
  "0 \<le> currentQuestionIndex (loaded branching_questions [])
   \<and> currentQuestionIndex (loaded branching_questions [])
       < int (length (questions (loaded branching_questions [])))
   \<and> branch_target (questions (loaded branching_questions [])
                     ! nat (currentQuestionIndex (loaded branching_questions [])))
        (Str ''Yes'') = Some 99
   \<and> 99 \<notin> id_q ` set (questions (loaded branching_questions []))
   \<and> handleResponse 2 (utils conv_digits) no_rows (loaded branching_questions []) 1 (Str ''Yes'')
       = afterLastQuestion 2 (utils conv_digits) no_rows (loaded branching_questions [])
           ((loaded branching_questions [])\<lparr>responses := [1 \<mapsto> Str ''Yes'']\<rparr>, [])
           [1 \<mapsto> Str ''Yes'']"
proof -
  have hyps: "0 \<le> currentQuestionIndex (loaded branching_questions [])"
    "currentQuestionIndex (loaded branching_questions [])
       < int (length (questions (loaded branching_questions [])))"
    "branch_target (questions (loaded branching_questions [])
                     ! nat (currentQuestionIndex (loaded branching_questions [])))
        (Str ''Yes'') = Some 99"
    "99 \<notin> id_q ` set (questions (loaded branching_questions []))"
    by (simp_all add: branch_target_def example_defs branching_defs)
  have "responses (loaded branching_questions []) = Map.empty"
    by (simp add: example_defs)
  with hyps
    missing_target_ends_set
      [of "loaded branching_questions []" "Str ''Yes''" 99 2 "utils conv_digits" no_rows 1]
  show ?thesis
    by simp
qed

section \<open>Properties of the phases\<close>

lemma fetchRiskAssessment_loadedPart:
  "loadedPart (fst (fetchRiskAssessment tbl state r sc)) = loadedPart (fst r)"
  by (simp add: fetchRiskAssessment_def loadedPart_def Let_def split: option.splits)

lemma loadNextCancerType_loadedPart:
  "loadNextCancerType n state r = Some res \<Longrightarrow> loadedPart (fst (fst res)) = loadedPart (fst r)"
proof (induction n arbitrary: r res)
  case 0
  then show ?case by simp
next
  case (Suc n)
  show ?case
  proof (cases "cancerTypesQueue state")
    case Nil
    with Suc.prems show ?thesis
      by (auto simp: loadedPart_def)
  next
    case (Cons t ts)
    let ?r1 = "((fst r)\<lparr>currentCancerType := Some t, cancerTypesQueue := ts\<rparr>, snd r)"
    show ?thesis
    proof (cases "filter (\<lambda>q. category q = Some t) (specializedQuestions state) = []")
      case False
      with Cons Suc.prems show ?thesis
        by (auto simp: loadedPart_def loadQuestionsForCancerType.simps)
    next
      case True
      show ?thesis
      proof (cases "loadNextCancerType n state ?r1")
        case None
        with True Cons Suc.prems show ?thesis
          by (auto simp: loadedPart_def loadQuestionsForCancerType.simps)
      next
        case (Some res2)
        with True Cons Suc.prems
        have "res = ((fst (fst res2), snd (fst res2) @ [Toast ''Moving to Next Section'']),
                     snd res2)"
          by (auto simp: loadQuestionsForCancerType.simps split: prod.splits)
        with Suc.IH [OF Some] show ?thesis
          by (simp add: loadedPart_def)
      qed
    qed
  qed
qed

lemma loadQuestionsForCancerType_loadedPart:
  "loadedPart (fst (fst (loadQuestionsForCancerType n state r t))) = loadedPart (fst r)"
  using loadNextCancerType_loadedPart [of n state r]
  by (auto simp: loadedPart_def Let_def loadQuestionsForCancerType.simps split: option.splits)

lemma resume_loadedPart:
  "loadedPart (fst (resume U tbl state res)) = loadedPart (fst (fst res))"
  using fetchRiskAssessment_loadedPart
  by (auto simp: resume_def loadNextCancerType_rest_def Let_def loadedPart_def
        split: prod.splits)

lemma processGeneralPhaseCompletion_loadedPart:
  "loadedPart (fst (processGeneralPhaseCompletion n U tbl state r rs)) = loadedPart (fst r)"
proof (cases "analyzeGeneralResponses U rs (generalQuestions state)")
  case (Pair detectedTypes positive)
  show ?thesis
  proof (cases positive)
    case False
    with Pair show ?thesis
      by (auto simp: processGeneralPhaseCompletion_def loadedPart_def)
  next
    case True
    let ?types = "if 0 < length (filter (\<lambda>t. t \<noteq> ''general'') detectedTypes)
                  then filter (\<lambda>t. t \<noteq> ''general'') detectedTypes else detectedTypes"
    show ?thesis
    proof (cases ?types)
      case Nil
      with Pair True show ?thesis
        using fetchRiskAssessment_loadedPart
        by (auto simp: processGeneralPhaseCompletion_def Let_def loadedPart_def)
    next
      case (Cons t ts)
      let ?r1 = "((fst r)\<lparr>detectedCancerTypes := ?types, cancerTypesQueue := ts,
                         currentCancerType := Some t, hasPositiveResponses := True\<rparr>, snd r)"
      obtain r2 pending where r2: "loadQuestionsForCancerType n state ?r1 t = (r2, pending)"
        by (cases "loadQuestionsForCancerType n state ?r1 t")
      from Pair True Cons r2
      have "processGeneralPhaseCompletion n U tbl state r rs =
            resume U tbl state ((fst r2, snd r2 @ [Toast ''Phase Complete'']), pending)"
        by (simp add: processGeneralPhaseCompletion_def Let_def)
      then have "loadedPart (fst (processGeneralPhaseCompletion n U tbl state r rs))
                 = loadedPart (fst r2)"
        by (simp add: resume_loadedPart)
      also have "\<dots> = loadedPart (fst ?r1)"
        using loadQuestionsForCancerType_loadedPart [of n state ?r1 t] r2 by simp
      also have "\<dots> = loadedPart (fst r)"
        by (simp add: loadedPart_def)
      finally show ?thesis .
    qed
  qed
qed

lemma afterLastQuestion_loadedPart:
  assumes "afterLastQuestion n U tbl state r rs = Some r'"
  shows "loadedPart (fst r') = loadedPart (fst r)"
proof -
  consider (general) "quizPhase state = ''general''"
    | (queue) "quizPhase state \<noteq> ''general''" "0 < length (cancerTypesQueue state)"
    | (final) "quizPhase state \<noteq> ''general''" "\<not> 0 < length (cancerTypesQueue state)"
    by blast
  then show ?thesis
  proof cases
    case general
    with assms show ?thesis
      by (auto simp: afterLastQuestion_def processGeneralPhaseCompletion_loadedPart)
  next
    case queue
    with assms obtain res where "loadNextCancerType (Suc n) state r = Some res"
      and "r' = resume U tbl state res"
      by (auto simp: afterLastQuestion_def simp del: loadNextCancerType.simps)
    with loadNextCancerType_loadedPart [of "Suc n" state r res] show ?thesis
      by (simp add: resume_loadedPart)
  next
    case final
    with assms show ?thesis
      using fetchRiskAssessment_loadedPart
      by (auto simp: afterLastQuestion_def Let_def loadedPart_def)
  qed
qed

lemma handleResponse_loadedPart:
  assumes "handleResponse n U tbl state questionId response = Some (state', evs)"
  shows "loadedPart state' = loadedPart state"
proof (cases "handleResponse_try n U tbl state questionId response")
  case (Inl err)
  with assms show ?thesis
    by (auto simp: handleResponse_def loadedPart_def)
next
  case (Inr res)
  with assms have res: "res = Some (state', evs)"
    by (simp add: handleResponse_def)
  let ?new = "(responses state)(questionId \<mapsto> response)"
  from Inr res consider
      (shown) nxt where "state' = state\<lparr>responses := ?new, currentQuestionIndex := nxt\<rparr>"
    | (ended) "afterLastQuestion n U tbl state (state\<lparr>responses := ?new\<rparr>, []) ?new
               = Some (state', evs)"
    by (auto simp: handleResponse_try_def Let_def split: if_splits)
  then show ?thesis
  proof cases
    case shown
    then show ?thesis by (simp add: loadedPart_def)
  next
    case ended
    from afterLastQuestion_loadedPart [OF ended] show ?thesis
      by (simp add: loadedPart_def)
  qed
qed

lemma reachable_loadedPart:
  "reachable U tbl G S state \<Longrightarrow> loadedPart state = loadedPart (loaded G S)"
proof (induction rule: reachable.induct)
  case start
  show ?case by simp
next
  case (answer state n questionId response state' evs)
  from handleResponse_loadedPart [OF answer.hyps(3)] answer.IH show ?case
    by simp
next
  case (reset state)
  then show ?case
    by (simp add: resetQuiz_def loadedPart_def)
qed

lemma generalQuestions_loaded: "generalQuestions (loaded G S) = G"
  by (cases G) (simp_all add: loaded_def fetchQuestions_def initialState_def)

lemma questions_loaded: "questions (loaded G S) = G"
  by (cases G) (simp_all add: loaded_def fetchQuestions_def initialState_def)

lemma loaded_fields:
  "currentQuestionIndex (loaded G S) = 0" "responses (loaded G S) = Map.empty"
  "quizCompleted (loaded G S) = False" "score (loaded G S) = Fin 0"
  "riskAssessment (loaded G S) = None" "quizPhase (loaded G S) = ''general''"
  "detectedCancerTypes (loaded G S) = []" "currentCancerType (loaded G S) = None"
  "allCancerTypesProcessed (loaded G S) = False" "cancerTypesQueue (loaded G S) = []"
  by (cases G; simp add: loaded_def fetchQuestions_def initialState_def)+

lemma resetQuiz_reachable:
  assumes "reachable U tbl G S state"
  shows "resetQuiz state = ((loaded G S)\<lparr>hasPositiveResponses := True\<rparr>, [])"
proof -
  from reachable_loadedPart [OF assms]
  have same: "isLoading state = isLoading (loaded G S)"
    "generalQuestions state = generalQuestions (loaded G S)"
    "specializedQuestions state = specializedQuestions (loaded G S)"
    by (simp_all add: loadedPart_def)
  show ?thesis
    by (simp add: resetQuiz_def same loaded_fields questions_loaded generalQuestions_loaded)
qed

lemma branching_example_reachable:
  "reachable (utils conv_digits) no_rows branching_questions []
     ((loaded branching_questions [])
        \<lparr>responses := [1 \<mapsto> Str ''Yes''], detectedCancerTypes := [''general''],
         cancerTypesQueue := [], currentCancerType := Some ''general'',
         hasPositiveResponses := True, quizCompleted := True,
         allCancerTypesProcessed := True, score := Fin 0\<rparr>)"
proof -
  have "render (loaded branching_questions []) = QuizComponent"
    by (simp add: render_def example_defs branching_defs)
  from reachable.answer [OF reachable.start this branching_example_run] show ?thesis .
qed

text \<open>
  C8: in every reachable state \<open>resetQuiz\<close> gives the state in which the session started
  after loading: the general phase at the first of the general questions that were
  loaded, no answers, an empty queue, no detected and no current cancer type, not
  completed, score 0 and no risk assessment. It makes no call at all, so it does not query
  the questions again. The one field that differs from the start is
  \<open>hasPositiveResponses\<close>, which it sets. The reset of the single-type component sets its
  cells in the same way.
\<close>

theorem reset_restores_start:
  assumes "reachable U tbl G S state"
  shows "resetQuiz state = ((loaded G S)\<lparr>hasPositiveResponses := True\<rparr>, [])
         \<and> quizPhase (fst (resetQuiz state)) = ''general''
         \<and> responses (fst (resetQuiz state)) = Map.empty
         \<and> cancerTypesQueue (fst (resetQuiz state)) = []
         \<and> currentCancerType (fst (resetQuiz state)) = None
         \<and> detectedCancerTypes (fst (resetQuiz state)) = []
         \<and> quizCompleted (fst (resetQuiz state)) = False
         \<and> score (fst (resetQuiz state)) = Fin 0
         \<and> riskAssessment (fst (resetQuiz state)) = None
         \<and> currentQuestionIndex (fst (resetQuiz state)) = 0
         \<and> questions (fst (resetQuiz state)) = G
         \<and> generalQuestions (fst (resetQuiz state)) = G
         \<and> snd (resetQuiz state) = []
         \<and> resetQuiz_single cells =
             (cells\<lparr>currentQuestionIndex_c := 0, responses_c := Map.empty,
                    quizCompleted_c := False, score_c := Fin 0, riskAssessment_c := None,
                    quizPhase_c := ''general'', detectedCancerType_c := None,
                    questions_c := generalQuestions_c cells\<rparr>, [])"
  by (simp add: resetQuiz_reachable [OF assms] loaded_fields questions_loaded
        generalQuestions_loaded resetQuiz_single_def)

text \<open>The reset after the quiz of the branching example has ended.\<close>

theorem reset_restores_start_witness:
  "resetQuiz
     ((loaded branching_questions [])
        \<lparr>responses := [1 \<mapsto> Str ''Yes''], detectedCancerTypes := [''general''],
         cancerTypesQueue := [], currentCancerType := Some ''general'',
         hasPositiveResponses := True, quizCompleted := True,
         allCancerTypesProcessed := True, score := Fin 0\<rparr>)
   = ((loaded branching_questions [])\<lparr>hasPositiveResponses := True\<rparr>, [])"
  using reset_restores_start [OF branching_example_reachable] by simp

lemma fetchRiskAssessment_questions:
  "questions (fst (fetchRiskAssessment tbl state r sc)) = questions (fst r)"
  "currentQuestionIndex (fst (fetchRiskAssessment tbl state r sc)) = currentQuestionIndex (fst r)"
  by (simp_all add: fetchRiskAssessment_def Let_def split: option.splits)

text \<open>
  What a call of \<open>loadNextCancerType\<close> leaves: the question shown before, or the first of
  a list that is not empty; and either the rest of the call is still to be run, or the
  phase is the specialized one, or the call has skipped the types of a queue that was not
  empty and has found no question.
\<close>

lemma loadNextCancerType_outcome:
  "loadNextCancerType n state r = Some res \<Longrightarrow>
   (questions (fst (fst res)) = questions (fst r)
      \<and> currentQuestionIndex (fst (fst res)) = currentQuestionIndex (fst r)
    \<or> questions (fst (fst res)) \<noteq> [] \<and> currentQuestionIndex (fst (fst res)) = 0)
   \<and> (snd res \<or> quizPhase (fst (fst res)) = ''specialized''
       \<or> cancerTypesQueue state \<noteq> [] \<and> quizPhase (fst (fst res)) = quizPhase (fst r)
          \<and> quizCompleted (fst (fst res)) = quizCompleted (fst r))"
proof (induction n arbitrary: r res)
  case 0
  then show ?case by simp
next
  case (Suc n)
  show ?case
  proof (cases "cancerTypesQueue state")
    case Nil
    with Suc.prems show ?thesis
      by auto
  next
    case (Cons t ts)
    let ?r1 = "((fst r)\<lparr>currentCancerType := Some t, cancerTypesQueue := ts\<rparr>, snd r)"
    show ?thesis
    proof (cases "filter (\<lambda>q. category q = Some t) (specializedQuestions state) = []")
      case False
      with Cons Suc.prems show ?thesis
        by (auto simp: loadQuestionsForCancerType.simps)
    next
      case True
      show ?thesis
      proof (cases "loadNextCancerType n state ?r1")
        case None
        with True Cons Suc.prems show ?thesis
          by (auto simp: loadQuestionsForCancerType.simps)
      next
        case (Some res2)
        with True Cons Suc.prems
        have "res = ((fst (fst res2), snd (fst res2) @ [Toast ''Moving to Next Section'']),
                     snd res2)"
          by (auto simp: loadQuestionsForCancerType.simps split: prod.splits)
        with Suc.IH [OF Some] Cons show ?thesis
          by simp
      qed
    qed
  qed
qed

lemma loadQuestionsForCancerType_outcome:
  "(questions (fst (fst (loadQuestionsForCancerType n state r t))) = questions (fst r)
      \<and> currentQuestionIndex (fst (fst (loadQuestionsForCancerType n state r t)))
          = currentQuestionIndex (fst r)
    \<or> questions (fst (fst (loadQuestionsForCancerType n state r t))) \<noteq> []
      \<and> currentQuestionIndex (fst (fst (loadQuestionsForCancerType n state r t))) = 0)
   \<and> (snd (loadQuestionsForCancerType n state r t)
       \<or> quizPhase (fst (fst (loadQuestionsForCancerType n state r t))) = ''specialized''
       \<or> quizPhase (fst (fst (loadQuestionsForCancerType n state r t))) = quizPhase (fst r)
          \<and> quizCompleted (fst (fst (loadQuestionsForCancerType n state r t)))
              = quizCompleted (fst r)
          \<and> (cancerTypesQueue state \<noteq> [] \<or> n = 0))"
proof (cases "filter (\<lambda>q. category q = Some t) (specializedQuestions state) = []")
  case False
  then show ?thesis
    by (simp add: loadQuestionsForCancerType.simps)
next
  case True
  show ?thesis
  proof (cases "loadNextCancerType n state r")
    case None
    then have "n = 0"
      by (cases n) (auto split: list.splits prod.splits)
    with None True show ?thesis
      by (simp add: loadQuestionsForCancerType.simps)
  next
    case (Some res)
    with True loadNextCancerType_outcome [OF Some] show ?thesis
      by (auto simp: loadQuestionsForCancerType.simps)
  qed
qed

lemma resume_outcome:
  "questions (fst (resume U tbl state res)) = questions (fst (fst res))"
  "currentQuestionIndex (fst (resume U tbl state res)) = currentQuestionIndex (fst (fst res))"
  "snd res \<Longrightarrow> quizCompleted (fst (resume U tbl state res))"
  "\<not> snd res \<Longrightarrow> resume U tbl state res = fst res"
  by (auto simp: resume_def loadNextCancerType_rest_def Let_def fetchRiskAssessment_questions
        split: prod.splits)

text \<open>
  What the end of a set of questions leaves: the question shown before, or the first of
  a list that is not empty; and the quiz is completed, or in the specialized phase, or in
  the phase it was in, with a queue that was not empty.
\<close>

lemma processGeneralPhaseCompletion_outcome:
  "(questions (fst (processGeneralPhaseCompletion (Suc n) U tbl state r rs)) = questions (fst r)
      \<and> currentQuestionIndex (fst (processGeneralPhaseCompletion (Suc n) U tbl state r rs))
          = currentQuestionIndex (fst r)
    \<or> questions (fst (processGeneralPhaseCompletion (Suc n) U tbl state r rs)) \<noteq> []
      \<and> currentQuestionIndex (fst (processGeneralPhaseCompletion (Suc n) U tbl state r rs)) = 0)
   \<and> (quizCompleted (fst (processGeneralPhaseCompletion (Suc n) U tbl state r rs))
       \<or> quizPhase (fst (processGeneralPhaseCompletion (Suc n) U tbl state r rs))
           = ''specialized''
       \<or> cancerTypesQueue state \<noteq> [])"
proof (cases "analyzeGeneralResponses U rs (generalQuestions state)")
  case (Pair detectedTypes positive)
  show ?thesis
  proof (cases positive)
    case False
    with Pair show ?thesis
      by (simp add: processGeneralPhaseCompletion_def)
  next
    case True
    let ?types = "if 0 < length (filter (\<lambda>t. t \<noteq> ''general'') detectedTypes)
                  then filter (\<lambda>t. t \<noteq> ''general'') detectedTypes else detectedTypes"
    show ?thesis
    proof (cases ?types)
      case Nil
      with Pair True show ?thesis
        by (simp add: processGeneralPhaseCompletion_def Let_def fetchRiskAssessment_questions)
    next
      case (Cons t ts)
      let ?r1 = "((fst r)\<lparr>detectedCancerTypes := ?types, cancerTypesQueue := ts,
                         currentCancerType := Some t, hasPositiveResponses := True\<rparr>, snd r)"
      let ?res = "loadQuestionsForCancerType (Suc n) state ?r1 t"
      let ?res' = "((fst (fst ?res), snd (fst ?res) @ [Toast ''Phase Complete'']), snd ?res)"
      from Pair True Cons
      have eq: "processGeneralPhaseCompletion (Suc n) U tbl state r rs = resume U tbl state ?res'"
        by (simp add: processGeneralPhaseCompletion_def Let_def split: prod.splits)
      show ?thesis
      proof (cases "snd ?res")
        case True
        with loadQuestionsForCancerType_outcome [of "Suc n" state ?r1 t]
          resume_outcome(1,2) [of U tbl state ?res']
          resume_outcome(3) [of ?res' U tbl state]
        show ?thesis
          unfolding eq by auto
      next
        case False
        with loadQuestionsForCancerType_outcome [of "Suc n" state ?r1 t]
          resume_outcome(4) [of ?res' U tbl state]
        show ?thesis
          unfolding eq by auto
      qed
    qed
  qed
qed

lemma afterLastQuestion_returns:
  "\<exists>r'. afterLastQuestion n U tbl state r rs = Some r'"
  by (auto simp: afterLastQuestion_def Let_def split: list.splits prod.splits)

lemma afterLastQuestion_outcome:
  assumes "afterLastQuestion n U tbl state r rs = Some r'"
  shows "(questions (fst r') = questions (fst r)
          \<and> currentQuestionIndex (fst r') = currentQuestionIndex (fst r)
        \<or> questions (fst r') \<noteq> [] \<and> currentQuestionIndex (fst r') = 0)
       \<and> (quizCompleted (fst r') \<or> quizPhase (fst r') = ''specialized''
           \<or> cancerTypesQueue state \<noteq> []
              \<and> (quizPhase state = ''general''
                  \<or> quizPhase state \<noteq> ''general'' \<and> quizPhase (fst r') = quizPhase (fst r)))"
proof -
  consider (general) "quizPhase state = ''general''"
    | (queue) "quizPhase state \<noteq> ''general''" "0 < length (cancerTypesQueue state)"
    | (final) "quizPhase state \<noteq> ''general''" "\<not> 0 < length (cancerTypesQueue state)"
    by blast
  then show ?thesis
  proof cases
    case general
    with assms have "r' = processGeneralPhaseCompletion (Suc n) U tbl state r rs"
      by (simp add: afterLastQuestion_def)
    with processGeneralPhaseCompletion_outcome [of n U tbl state r rs] general
    show ?thesis
      by auto
  next
    case queue
    with assms obtain res where res: "loadNextCancerType (Suc n) state r = Some res"
      and r': "r' = resume U tbl state res"
      by (auto simp: afterLastQuestion_def simp del: loadNextCancerType.simps)
    show ?thesis
    proof (cases "snd res")
      case True
      with loadNextCancerType_outcome [OF res] resume_outcome(1,2) [of U tbl state res]
        resume_outcome(3) [of res U tbl state]
      show ?thesis
        unfolding r' by auto
    next
      case False
      with loadNextCancerType_outcome [OF res] resume_outcome(4) [of res U tbl state] queue(1)
      show ?thesis
        unfolding r' by auto
    qed
  next
    case final
    with assms show ?thesis
      by (auto simp: afterLastQuestion_def Let_def fetchRiskAssessment_questions)
  qed
qed

lemma handleResponse_cases:
  assumes "handleResponse n U tbl state questionId response = Some (state', evs)"
  shows "state' = state\<lparr>responses := (responses state)(questionId \<mapsto> response)\<rparr>
         \<or> (\<exists>nxt. state' = state\<lparr>responses := (responses state)(questionId \<mapsto> response),
                                  currentQuestionIndex := nxt\<rparr>
                   \<and> 0 \<le> nxt \<and> nxt < int (length (questions state)))
         \<or> afterLastQuestion n U tbl state
              (state\<lparr>responses := (responses state)(questionId \<mapsto> response)\<rparr>, [])
              ((responses state)(questionId \<mapsto> response)) = Some (state', evs)"
  using assms
  by (auto simp: handleResponse_def handleResponse_try_def Let_def split: if_splits sum.splits)

lemma handleResponse_index:
  assumes "handleResponse n U tbl state questionId response = Some (state', evs)"
    and "0 < length (questions state) \<longrightarrow>
           0 \<le> currentQuestionIndex state
           \<and> currentQuestionIndex state < int (length (questions state))"
  shows "0 < length (questions state') \<longrightarrow>
           0 \<le> currentQuestionIndex state'
           \<and> currentQuestionIndex state' < int (length (questions state'))"
  using handleResponse_cases [OF assms(1)]
proof (elim disjE exE conjE)
  assume "state' = state\<lparr>responses := (responses state)(questionId \<mapsto> response)\<rparr>"
  with assms(2) show ?thesis by simp
next
  fix nxt
  assume "state' = state\<lparr>responses := (responses state)(questionId \<mapsto> response),
                        currentQuestionIndex := nxt\<rparr>"
    and "0 \<le> nxt" and "nxt < int (length (questions state))"
  then show ?thesis by simp
next
  assume "afterLastQuestion n U tbl state
            (state\<lparr>responses := (responses state)(questionId \<mapsto> response)\<rparr>, [])
            ((responses state)(questionId \<mapsto> response)) = Some (state', evs)"
  from afterLastQuestion_outcome [OF this] assms(2) show ?thesis
    by auto
qed

lemma handleResponse_phase:
  assumes "handleResponse n U tbl state questionId response = Some (state', evs)"
    and "quizPhase state = ''general'' \<longrightarrow> cancerTypesQueue state = []"
  shows "quizCompleted state' \<or> quizPhase state' \<noteq> ''general''
         \<or> (quizCompleted state' = quizCompleted state \<and> quizPhase state' = quizPhase state
             \<and> cancerTypesQueue state' = cancerTypesQueue state
             \<and> detectedCancerTypes state' = detectedCancerTypes state)"
  using handleResponse_cases [OF assms(1)]
proof (elim disjE exE conjE)
  assume "state' = state\<lparr>responses := (responses state)(questionId \<mapsto> response)\<rparr>"
  then show ?thesis by simp
next
  fix nxt
  assume "state' = state\<lparr>responses := (responses state)(questionId \<mapsto> response),
                        currentQuestionIndex := nxt\<rparr>"
  then show ?thesis by simp
next
  assume "afterLastQuestion n U tbl state
            (state\<lparr>responses := (responses state)(questionId \<mapsto> response)\<rparr>, [])
            ((responses state)(questionId \<mapsto> response)) = Some (state', evs)"
  from afterLastQuestion_outcome [OF this] assms(2) show ?thesis
    by auto
qed

lemma reachable_current_question:
  "reachable U tbl G S state \<Longrightarrow>
   0 < length (questions state) \<longrightarrow>
     0 \<le> currentQuestionIndex state
     \<and> currentQuestionIndex state < int (length (questions state))"
proof (induction rule: reachable.induct)
  case start
  show ?case by (simp add: loaded_fields)
next
  case (answer state n questionId response state' evs)
  from handleResponse_index [OF answer.hyps(3) answer.IH] show ?case .
next
  case (reset state)
  then show ?case
    by (simp add: resetQuiz_def)
qed

lemma reachable_general_phase:
  "reachable U tbl G S state \<Longrightarrow> quizPhase state = ''general'' \<Longrightarrow> \<not> quizCompleted state \<Longrightarrow>
   cancerTypesQueue state = [] \<and> detectedCancerTypes state = []"
proof (induction rule: reachable.induct)
  case start
  show ?case by (simp add: loaded_fields)
next
  case (answer state n questionId response state' evs)
  from answer.hyps(2) have "\<not> quizCompleted state"
    by (auto simp: render_def split: if_splits)
  with answer.IH have queue: "quizPhase state = ''general'' \<longrightarrow> cancerTypesQueue state = []"
    by simp
  from handleResponse_phase [OF answer.hyps(3) queue]
    answer.prems answer.IH \<open>\<not> quizCompleted state\<close>
  show ?case
    by auto
next
  case (reset state)
  then show ?case
    by (simp add: resetQuiz_def)
qed

lemma reachable_specializedQuestions:
  "reachable U tbl G S state \<Longrightarrow> set (specializedQuestions state) \<subseteq> set S"
  using reachable_loadedPart [of U tbl G S state]
  by (cases G) (auto simp: loadedPart_def loaded_def fetchQuestions_def initialState_def)

lemma shown_question:
  assumes "reachable U tbl G S state" and "render state = QuizComponent"
  shows "\<not> isLoading state" and "\<not> quizCompleted state"
    and "0 \<le> currentQuestionIndex state"
    and "currentQuestionIndex state < int (length (questions state))"
proof -
  from assms(2) show "\<not> isLoading state" and "\<not> quizCompleted state"
    by (auto simp: render_def split: if_splits)
  from assms(2) have "0 < length (questions state)"
    by (auto simp: render_def split: if_splits)
  with reachable_current_question [OF assms(1)]
  show "0 \<le> currentQuestionIndex state"
    and "currentQuestionIndex state < int (length (questions state))"
    by simp_all
qed

lemma second_question_reachable:
  "reachable U tbl hinted_questions S (second_question S a)"
proof -
  have "render (loaded hinted_questions S) = QuizComponent"
    by (simp add: render_def example_defs hinted_questions_def)
  moreover have "handleResponse 0 U tbl (loaded hinted_questions S) 1 a
                 = Some (second_question S a, [])"
    by (simp add: handleResponse_def handleResponse_try_def nextQuestionIndex_def Let_def
          second_question_def example_defs hinted_questions_def)
  ultimately show ?thesis
    using reachable.answer [OF reachable.start] by blast
qed

lemmas hinted_defs =
  hinted_questions_def oral_question_def skin_question_def second_question_def

lemma anyPositive_none:
  assumes "\<forall>q \<in> set qs. case rs (id_q q) of None \<Rightarrow> True | Some a \<Rightarrow> negative_sentinel a"
  shows "\<not> anyPositive rs qs"
  using assms by (auto simp: anyPositive_def list_ex_iff split: option.splits)

text \<open>
  C6 (with the detector of the specification): when the general phase ends and every
  general question has no answer or the answer \<open>No\<close> or the empty one, the handler saves
  the answers and completes the quiz with \<open>hasPositiveResponses\<close> false. It makes no other
  call, so no score is computed and no risk assessment fetched, and the screen is the
  healthy result.
\<close>

theorem negative_answers_end_healthy:
  assumes "reachable U tbl G S state" and "render state = QuizComponent"
    and "quizPhase state = ''general''"
    and "resolveNext (questions state ! nat (currentQuestionIndex state)) response
           (questions state) (currentQuestionIndex state) = EndOfSet"
    and "analyzeGeneralResponses U = detect"
    and "\<forall>q \<in> set G.
           case ((responses state)(questionId \<mapsto> response)) (id_q q) of
             None \<Rightarrow> True
           | Some a \<Rightarrow> negative_sentinel a"
  shows "handleResponse n U tbl state questionId response =
           Some (state\<lparr>responses := (responses state)(questionId \<mapsto> response),
                       quizCompleted := True, hasPositiveResponses := False,
                       allCancerTypesProcessed := True\<rparr>,
                 [SaveAllResponses ((responses state)(questionId \<mapsto> response))])
         \<and> render (state\<lparr>responses := (responses state)(questionId \<mapsto> response),
                          quizCompleted := True, hasPositiveResponses := False,
                          allCancerTypesProcessed := True\<rparr>) = HealthyResult"
proof -
  from reachable_loadedPart [OF assms(1)] have general: "generalQuestions state = G"
    by (simp add: loadedPart_def generalQuestions_loaded)
  note shown = shown_question [OF assms(1,2)]
  from assms(6) general
    anyPositive_none [of "generalQuestions state" "(responses state)(questionId \<mapsto> response)"]
  have "\<not> snd (detect ((responses state)(questionId \<mapsto> response)) (generalQuestions state))"
    by (simp add: detect_def Let_def)
  then obtain types
    where "detect ((responses state)(questionId \<mapsto> response)) (generalQuestions state)
           = (types, False)"
    by (cases "detect ((responses state)(questionId \<mapsto> response)) (generalQuestions state)")
       simp
  then have "processGeneralPhaseCompletion (Suc n) U tbl state
               (state\<lparr>responses := (responses state)(questionId \<mapsto> response)\<rparr>, [])
               ((responses state)(questionId \<mapsto> response))
             = (state\<lparr>responses := (responses state)(questionId \<mapsto> response),
                      quizCompleted := True, hasPositiveResponses := False,
                      allCancerTypesProcessed := True\<rparr>,
                [SaveAllResponses ((responses state)(questionId \<mapsto> response))])"
    using assms(5) by (simp add: processGeneralPhaseCompletion_def)
  with assms(3) shown(1)
    handleResponse_end_of_set [OF shown(3,4) assms(4), of n U tbl questionId]
  show ?thesis
    by (simp add: afterLastQuestion_def render_def)
qed

text \<open>Both general questions of the example answered \<open>No\<close>.\<close>

theorem negative_answers_end_healthy_witness:
  "handleResponse 0 (utils conv_digits) one_row (second_question [skin_question] (Str ''No''))
     2 (Str ''No'')
   = Some ((second_question [skin_question] (Str ''No''))
             \<lparr>responses := [1 \<mapsto> Str ''No'', 2 \<mapsto> Str ''No''], quizCompleted := True,
              hasPositiveResponses := False, allCancerTypesProcessed := True\<rparr>,
           [SaveAllResponses [1 \<mapsto> Str ''No'', 2 \<mapsto> Str ''No'']])
   \<and> render ((second_question [skin_question] (Str ''No''))
               \<lparr>responses := [1 \<mapsto> Str ''No'', 2 \<mapsto> Str ''No''], quizCompleted := True,
                hasPositiveResponses := False, allCancerTypesProcessed := True\<rparr>)
       = HealthyResult"
proof -
  let ?state = "second_question [skin_question] (Str ''No'')"
  have hyps: "reachable (utils conv_digits) one_row hinted_questions [skin_question] ?state"
    "render ?state = QuizComponent" "quizPhase ?state = ''general''"
    "resolveNext (questions ?state ! nat (currentQuestionIndex ?state)) (Str ''No'')
       (questions ?state) (currentQuestionIndex ?state) = EndOfSet"
    "analyzeGeneralResponses (utils conv_digits) = detect"
    "\<forall>q \<in> set hinted_questions.
       case ((responses ?state)(2 \<mapsto> Str ''No'')) (id_q q) of
         None \<Rightarrow> True
       | Some a \<Rightarrow> negative_sentinel a"
    by (rule second_question_reachable)
       (simp_all add: hinted_defs example_defs resolveNext_def branch_target_def utils_def
          negative_sentinel_def render_def)
  have "responses ?state = [1 \<mapsto> Str ''No'']"
    by (simp add: hinted_defs example_defs)
  with negative_answers_end_healthy [OF hyps, where n = 0] show ?thesis
    by simp
qed

text \<open>
  The single-type component has no healthy result at all. Its detector gives \<open>general\<close> when
  no known type has a positive score, and it then completes the quiz with a score as well.
\<close>

lemma detectedType_general:
  assumes "list_all (\<lambda>p. \<not> js_less (Fin 0) (snd p)) scores"
  shows "detectedType scores = Some ''general''"
proof -
  have "foldl (\<lambda>(maxScore, found) (t, v).
                 if js_less maxScore v then (v, Some t) else (maxScore, found))
          (Fin 0, None) scores = (Fin 0, None :: string option)"
    using assms by (induction scores) auto
  then show ?thesis
    by (simp add: detectedType_def)
qed

lemma general_is_scored_single:
  assumes "detectedType (cancerTypeScores rs (generalQuestions_c cells)) = Some ''general''"
    and "\<forall>q \<in> set (specializedQuestions_c cells). category q \<noteq> Some ''general''"
    and "quizPhase_c cells = ''general''"
  shows "quizCompleted_c (fst (analyzeGeneralResponses_single cv tbl cells r rs))"
    and "score_c (fst (analyzeGeneralResponses_single cv tbl cells r rs))
         = totalScore cv rs (questions_c cells)"
    and "CalculateRiskScore rs (questions_c cells)
         \<in> set (snd (analyzeGeneralResponses_single cv tbl cells r rs))"
proof -
  from assms(2)
  have "filter (\<lambda>q. category q = Some ''general'') (specializedQuestions_c cells) = []"
    by (auto simp: filter_empty_conv)
  with assms(1,3)
  show "quizCompleted_c (fst (analyzeGeneralResponses_single cv tbl cells r rs))"
    and "score_c (fst (analyzeGeneralResponses_single cv tbl cells r rs))
         = totalScore cv rs (questions_c cells)"
    and "CalculateRiskScore rs (questions_c cells)
         \<in> set (snd (analyzeGeneralResponses_single cv tbl cells r rs))"
    by (simp_all add: analyzeGeneralResponses_single_def calculateRiskScore_single_def Let_def
          split: option.splits)
qed

lemma fetchRiskAssessment_unfiltered:
  assumes "detectedCancerTypes state = []"
  shows "FetchRiskAssessment sc None \<in> set (snd (fetchRiskAssessment tbl state r sc))"
    and "hasPositiveResponses (fst (fetchRiskAssessment tbl state r sc))
         = hasPositiveResponses (fst r)"
    and "detectedCancerTypes (fst (fetchRiskAssessment tbl state r sc))
         = detectedCancerTypes (fst r)"
  using assms by (auto simp: fetchRiskAssessment_def split: option.splits)

lemma fetchRiskAssessment_keeps_events:
  "e \<in> set (snd r) \<Longrightarrow> e \<in> set (snd (fetchRiskAssessment tbl state r sc))"
  by (simp add: fetchRiskAssessment_def Let_def split: option.splits)

lemma detect_general:
  assumes "anyPositive rs qs" and "foldl max 0 (map snd (accumulators rs qs)) = 0"
  shows "detect rs qs = ([''general''], True)"
  using assms by (simp add: detect_def Let_def)

lemma general_only_completion:
  assumes "analyzeGeneralResponses U rs (generalQuestions state) = ([''general''], True)"
    and "cancerTypesQueue state = []" and "detectedCancerTypes state = []"
    and "\<forall>q \<in> set (specializedQuestions state). category q \<noteq> Some ''general''"
  shows "\<exists>state' evs answers.
           processGeneralPhaseCompletion (Suc n) U tbl state r rs = (state', evs)
           \<and> quizCompleted state' \<and> hasPositiveResponses state'
           \<and> detectedCancerTypes state' = [''general'']
           \<and> score state' = calculateRiskScore U answers (generalQuestions state)
           \<and> CalculateRiskScore answers (generalQuestions state) \<in> set evs
           \<and> FetchRiskAssessment (score state') None \<in> set evs"
proof -
  let ?r1 = "((fst r)\<lparr>detectedCancerTypes := [''general''], cancerTypesQueue := [],
                     currentCancerType := Some ''general'', hasPositiveResponses := True\<rparr>,
              snd r @ [SaveAllResponses (responses state), Toast ''Phase Complete'',
                       CalculateRiskScore (responses state) (generalQuestions state)])"
  let ?sc = "calculateRiskScore U (responses state) (generalQuestions state)"
  let ?r2 = "fetchRiskAssessment tbl state ?r1 ?sc"
  from assms(4) have none: "filter (\<lambda>q. category q = Some ''general'') (specializedQuestions state) = []"
    by (auto simp: filter_empty_conv)
  from assms(3) have scored: "scoredQuestions state = generalQuestions state"
    by (simp add: scoredQuestions_def)
  have run: "processGeneralPhaseCompletion (Suc n) U tbl state r rs =
        ((fst ?r2)\<lparr>quizCompleted := True, allCancerTypesProcessed := True, score := ?sc\<rparr>,
         snd ?r2)"
    using assms(1,2) none scored
    by (simp add: processGeneralPhaseCompletion_def loadQuestionsForCancerType.simps resume_def
          loadNextCancerType_rest_def Let_def)
  have fetched: "FetchRiskAssessment ?sc None \<in> set (snd ?r2)"
    using assms(3) by (rule fetchRiskAssessment_unfiltered(1))
  have calc: "CalculateRiskScore (responses state) (generalQuestions state) \<in> set (snd ?r2)"
    using fetchRiskAssessment_keeps_events
            [of "CalculateRiskScore (responses state) (generalQuestions state)" ?r1 tbl state ?sc]
    by simp
  have positive: "hasPositiveResponses (fst ?r2)"
    using fetchRiskAssessment_unfiltered(2) [OF assms(3)] by simp
  have types: "detectedCancerTypes (fst ?r2) = [''general'']"
    using fetchRiskAssessment_unfiltered(3) [OF assms(3)] by simp
  let ?state' = "(fst ?r2)\<lparr>quizCompleted := True, allCancerTypesProcessed := True,
                          score := ?sc\<rparr>"
  let ?evs = "snd ?r2"
  from run fetched calc positive types
  have "processGeneralPhaseCompletion (Suc n) U tbl state r rs = (?state', ?evs)
        \<and> quizCompleted ?state' \<and> hasPositiveResponses ?state'
        \<and> detectedCancerTypes ?state' = [''general'']
        \<and> score ?state' = calculateRiskScore U (responses state) (generalQuestions state)
        \<and> CalculateRiskScore (responses state) (generalQuestions state) \<in> set ?evs
        \<and> FetchRiskAssessment (score ?state') None \<in> set ?evs"
    by simp
  then show ?thesis
    by blast
qed

text \<open>
  C2, as the claim states it: positive answers without any hint end at the healthy result
  with no score and no risk assessment. In the example the first general question is
  answered \<open>No\<close> and the second, which has no hints, \<open>Yes\<close>: the detector gives \<open>general\<close>
  alone, and the handler computes a score, fetches the risk assessment and shows the
  quiz results.
\<close>

theorem general_candidate_counterexample:
  "detect [1 \<mapsto> Str ''No'', 2 \<mapsto> Str ''Yes''] hinted_questions = ([''general''], True)
   \<and> handleResponse 2 (utils conv_digits) one_row (second_question [skin_question] (Str ''No''))
       2 (Str ''Yes'')
     = Some ((second_question [skin_question] (Str ''No''))
               \<lparr>responses := [1 \<mapsto> Str ''No'', 2 \<mapsto> Str ''Yes''],
                detectedCancerTypes := [''general''], cancerTypesQueue := [],
                currentCancerType := Some ''general'', hasPositiveResponses := True,
                riskAssessment := Some low_risk, quizCompleted := True,
                allCancerTypesProcessed := True, score := Fin 0\<rparr>,
             [SaveAllResponses [1 \<mapsto> Str ''No''], Toast ''Phase Complete'',
              CalculateRiskScore [1 \<mapsto> Str ''No''] hinted_questions,
              FetchRiskAssessment (Fin 0) None])
   \<and> render ((second_question [skin_question] (Str ''No''))
               \<lparr>responses := [1 \<mapsto> Str ''No'', 2 \<mapsto> Str ''Yes''],
                detectedCancerTypes := [''general''], cancerTypesQueue := [],
                currentCancerType := Some ''general'', hasPositiveResponses := True,
                riskAssessment := Some low_risk, quizCompleted := True,
                allCancerTypesProcessed := True, score := Fin 0\<rparr>) = QuizResults"
  by (simp add: handler_defs utils_defs example_defs hinted_defs one_row_def render_def)

text \<open>
  C2, amended (with the detector of the specification): when the general phase ends with
  some answer that counts and no accumulator above zero, the detector gives \<open>general\<close>
  alone with the flag true, and the handler, which finds no question of the category
  \<open>general\<close> among the other questions, completes the quiz on the side of the results:
  \<open>hasPositiveResponses\<close> is true, a score over the general questions is computed and the
  risk assessment for it is fetched without a cancer type.
\<close>

theorem general_candidate_is_scored:
  assumes "reachable U tbl G S state" and "render state = QuizComponent"
    and "quizPhase state = ''general''"
    and "resolveNext (questions state ! nat (currentQuestionIndex state)) response
           (questions state) (currentQuestionIndex state) = EndOfSet"
    and "\<forall>q \<in> set S. category q \<noteq> Some ''general''"
    and "analyzeGeneralResponses U = detect"
    and "anyPositive ((responses state)(questionId \<mapsto> response)) G"
    and "foldl max 0 (map snd (accumulators ((responses state)(questionId \<mapsto> response)) G)) = 0"
  shows "detect ((responses state)(questionId \<mapsto> response)) G = ([''general''], True)
         \<and> (\<exists>state' evs answers.
               handleResponse (Suc n) U tbl state questionId response = Some (state', evs)
               \<and> quizCompleted state' \<and> hasPositiveResponses state'
               \<and> detectedCancerTypes state' = [''general'']
               \<and> score state' = calculateRiskScore U answers G
               \<and> CalculateRiskScore answers G \<in> set evs
               \<and> FetchRiskAssessment (score state') None \<in> set evs)"
proof -
  let ?new = "(responses state)(questionId \<mapsto> response)"
  from reachable_loadedPart [OF assms(1)] have general: "generalQuestions state = G"
    by (simp add: loadedPart_def generalQuestions_loaded)
  note shown = shown_question [OF assms(1,2)]
  from reachable_general_phase [OF assms(1,3) shown(2)]
  have queue: "cancerTypesQueue state = []" and types: "detectedCancerTypes state = []"
    by simp_all
  from reachable_specializedQuestions [OF assms(1)] assms(5)
  have others: "\<forall>q \<in> set (specializedQuestions state). category q \<noteq> Some ''general''"
    by blast
  note detected = detect_general [OF assms(7,8)]
  with assms(6) general
  have "analyzeGeneralResponses U ?new (generalQuestions state) = ([''general''], True)"
    by simp
  from general_only_completion
         [OF this queue types others, of "Suc n" tbl "(state\<lparr>responses := ?new\<rparr>, [])"]
  have "\<exists>state' evs answers.
          processGeneralPhaseCompletion (Suc (Suc n)) U tbl state (state\<lparr>responses := ?new\<rparr>, [])
            ?new = (state', evs)
          \<and> quizCompleted state' \<and> hasPositiveResponses state'
          \<and> detectedCancerTypes state' = [''general'']
          \<and> score state' = calculateRiskScore U answers (generalQuestions state)
          \<and> CalculateRiskScore answers (generalQuestions state) \<in> set evs
          \<and> FetchRiskAssessment (score state') None \<in> set evs" .
  with assms(3) general detected
    handleResponse_end_of_set [OF shown(3,4) assms(4), of "Suc n" U tbl questionId]
  show ?thesis
    by (simp add: afterLastQuestion_def)
qed

theorem general_candidate_is_scored_witness:
  "detect [1 \<mapsto> Str ''No'', 2 \<mapsto> Str ''Yes''] hinted_questions = ([''general''], True)
   \<and> (\<exists>state' evs answers.
         handleResponse 1 (utils conv_digits) one_row
           (second_question [skin_question] (Str ''No'')) 2 (Str ''Yes'') = Some (state', evs)
         \<and> quizCompleted state' \<and> hasPositiveResponses state'
         \<and> detectedCancerTypes state' = [''general'']
         \<and> score state' = totalScore conv_digits answers hinted_questions
         \<and> CalculateRiskScore answers hinted_questions \<in> set evs
         \<and> FetchRiskAssessment (score state') None \<in> set evs)"
proof -
  let ?state = "second_question [skin_question] (Str ''No'')"
  have hyps: "reachable (utils conv_digits) one_row hinted_questions [skin_question] ?state"
    "render ?state = QuizComponent" "quizPhase ?state = ''general''"
    "resolveNext (questions ?state ! nat (currentQuestionIndex ?state)) (Str ''Yes'')
       (questions ?state) (currentQuestionIndex ?state) = EndOfSet"
    "\<forall>q \<in> set [skin_question]. category q \<noteq> Some ''general''"
    "analyzeGeneralResponses (utils conv_digits) = detect"
    "anyPositive ((responses ?state)(2 \<mapsto> Str ''Yes'')) hinted_questions"
    "foldl max 0 (map snd (accumulators ((responses ?state)(2 \<mapsto> Str ''Yes''))
                             hinted_questions)) = 0"
    by (rule second_question_reachable)
       (simp_all add: hinted_defs example_defs resolveNext_def branch_target_def utils_def
          anyPositive_def accumulators_def negative_sentinel_def render_def)
  have "responses ?state = [1 \<mapsto> Str ''No'']"
    "calculateRiskScore (utils conv_digits) = totalScore conv_digits"
    by (simp_all add: second_question_def example_defs utils_def)
  with general_candidate_is_scored [OF hyps, where n = 0] show ?thesis
    by simp
qed

section \<open>The queue and a cancer type without questions\<close>

lemma loadNextCancerType_next:
  assumes "cancerTypesQueue state = t # ts"
    and "filter (\<lambda>q. category q = Some t) (specializedQuestions state) \<noteq> []"
  shows "loadNextCancerType (Suc n) state r =
           Some (((fst r)\<lparr>currentCancerType := Some t, cancerTypesQueue := ts,
                         questions := filter (\<lambda>q. category q = Some t)
                                        (specializedQuestions state),
                         currentQuestionIndex := 0, quizPhase := ''specialized''\<rparr>,
                  snd r @ [Toast ''Moving to Next Section'']), False)"
  using assms by (simp add: loadQuestionsForCancerType.simps)

text \<open>
  With a queue whose first type has no question the two functions call each other until
  the stack is exhausted. The exception is lost, and every call that was made goes on to
  its toast: the type is taken from the queue and no question is loaded.
\<close>

lemma loadNextCancerType_starved:
  assumes "cancerTypesQueue state = t # ts"
    and "filter (\<lambda>q. category q = Some t) (specializedQuestions state) = []"
  shows "loadNextCancerType (Suc n) state r =
           Some (((fst r)\<lparr>currentCancerType := Some t, cancerTypesQueue := ts\<rparr>,
                  snd r @ replicate (Suc n) (Toast ''Moving to Next Section'')), False)"
proof (induction n arbitrary: r)
  case 0
  from assms show ?case
    by (simp add: loadQuestionsForCancerType.simps)
next
  case (Suc n)
  let ?r1 = "((fst r)\<lparr>currentCancerType := Some t, cancerTypesQueue := ts\<rparr>, snd r)"
  have "loadNextCancerType (Suc (Suc n)) state r =
        (case loadQuestionsForCancerType (Suc n) state ?r1 t of
           (r', pending) \<Rightarrow> Some ((fst r', snd r' @ [Toast ''Moving to Next Section'']), pending))"
    using assms(1) by simp
  also have "loadQuestionsForCancerType (Suc n) state ?r1 t =
             (((fst r)\<lparr>currentCancerType := Some t, cancerTypesQueue := ts\<rparr>,
               snd r @ replicate (Suc n) (Toast ''Moving to Next Section'')), False)"
    using assms(2) Suc.IH [of ?r1] by (simp add: loadQuestionsForCancerType.simps)
  finally show ?case
    by (simp add: replicate_append_same)
qed

lemma skin_phase_reached:
  "handleResponse 1 (utils conv_digits) one_row (second_question [skin_question] (Str ''Yes''))
     2 (Str ''No'') = Some (skin_phase, [Toast ''Phase Complete''])"
  by (simp add: handler_defs utils_defs example_defs hinted_defs skin_phase_def)

lemma skin_phase_reachable:
  "reachable (utils conv_digits) one_row hinted_questions [skin_question] skin_phase"
proof -
  have "render (second_question [skin_question] (Str ''Yes'')) = QuizComponent"
    by (simp add: render_def hinted_defs example_defs)
  from reachable.answer [OF second_question_reachable this skin_phase_reached]
  show ?thesis .
qed

text \<open>
  C1: the candidates detected at the end of the general phase are to be visited in their
  order, a candidate without questions being passed over for the next one in the queue.
  The handlers do so as long as every candidate has a question (\<open>loadNextCancerType_next\<close>),
  but not otherwise. The answers \<open>Yes\<close> and \<open>No\<close> to the two general questions of the
  example give the candidates \<open>skin\<close> and \<open>oral\<close>.

  With a question for \<open>oral\<close> and none for \<open>skin\<close>, \<open>loadQuestionsForCancerType\<close> calls
  \<open>loadNextCancerType\<close>, which reads the queue of the state of the current render, still
  empty: the quiz is completed and scored, and the question about \<open>oral\<close> is never shown.

  With a question for \<open>skin\<close> and none for \<open>oral\<close>, the question about \<open>skin\<close> is shown with
  \<open>oral\<close> in the queue. After its answer the two functions call each other with the same
  queue until the stack is exhausted, whatever its size. The handler returns with \<open>oral\<close>
  taken from the queue, and neither moves on nor completes the quiz: the screen shows the
  question about \<open>skin\<close> again, which has its answer. Both states are reachable.
\<close>

theorem empty_candidate_breaks_queue:
  "reachable (utils conv_digits) one_row hinted_questions [oral_question]
     (second_question [oral_question] (Str ''Yes''))
   \<and> handleResponse 2 (utils conv_digits) one_row
         (second_question [oral_question] (Str ''Yes'')) 2 (Str ''No'')
       = Some ((second_question [oral_question] (Str ''Yes''))
                 \<lparr>responses := [1 \<mapsto> Str ''Yes'', 2 \<mapsto> Str ''No''],
                  detectedCancerTypes := [''skin'', ''oral''], cancerTypesQueue := [''oral''],
                  currentCancerType := Some ''skin'', hasPositiveResponses := True,
                  riskAssessment := Some low_risk, quizCompleted := True,
                  allCancerTypesProcessed := True, score := Fin 10\<rparr>,
               [SaveAllResponses [1 \<mapsto> Str ''Yes''], Toast ''Phase Complete'',
                CalculateRiskScore [1 \<mapsto> Str ''Yes''] hinted_questions,
                FetchRiskAssessment (Fin 10) None])
   \<and> reachable (utils conv_digits) one_row hinted_questions [skin_question] skin_phase
   \<and> render skin_phase = QuizComponent
   \<and> (\<forall>n. \<exists>evs.
         handleResponse n (utils conv_digits) one_row skin_phase 11 (Str ''Yes'')
           = Some (skin_phase\<lparr>responses := [1 \<mapsto> Str ''Yes'', 2 \<mapsto> Str ''No'', 11 \<mapsto> Str ''Yes''],
                              currentCancerType := Some ''oral'', cancerTypesQueue := []\<rparr>,
                   evs))
   \<and> render (skin_phase\<lparr>responses := [1 \<mapsto> Str ''Yes'', 2 \<mapsto> Str ''No'', 11 \<mapsto> Str ''Yes''],
                        currentCancerType := Some ''oral'', cancerTypesQueue := []\<rparr>)
       = QuizComponent
   \<and> questions (skin_phase\<lparr>responses := [1 \<mapsto> Str ''Yes'', 2 \<mapsto> Str ''No'', 11 \<mapsto> Str ''Yes''],
                           currentCancerType := Some ''oral'', cancerTypesQueue := []\<rparr>)
       = [skin_question]"
proof -
  have first: "handleResponse 2 (utils conv_digits) one_row
                 (second_question [oral_question] (Str ''Yes'')) 2 (Str ''No'')
     = Some ((second_question [oral_question] (Str ''Yes''))
               \<lparr>responses := [1 \<mapsto> Str ''Yes'', 2 \<mapsto> Str ''No''],
                detectedCancerTypes := [''skin'', ''oral''], cancerTypesQueue := [''oral''],
                currentCancerType := Some ''skin'', hasPositiveResponses := True,
                riskAssessment := Some low_risk, quizCompleted := True,
                allCancerTypesProcessed := True, score := Fin 10\<rparr>,
             [SaveAllResponses [1 \<mapsto> Str ''Yes''], Toast ''Phase Complete'',
              CalculateRiskScore [1 \<mapsto> Str ''Yes''] hinted_questions,
              FetchRiskAssessment (Fin 10) None])"
    by (simp add: handler_defs utils_defs example_defs hinted_defs one_row_def
          binary64_examples)
  have shown: "render skin_phase = QuizComponent"
    by (simp add: render_def skin_phase_def hinted_defs example_defs)
  have queue: "cancerTypesQueue skin_phase = [''oral'']"
    and none: "filter (\<lambda>q. category q = Some ''oral'') (specializedQuestions skin_phase) = []"
    by (simp_all add: skin_phase_def hinted_defs example_defs)
  have "\<exists>evs. handleResponse n (utils conv_digits) one_row skin_phase 11 (Str ''Yes'')
          = Some (skin_phase\<lparr>responses := [1 \<mapsto> Str ''Yes'', 2 \<mapsto> Str ''No'', 11 \<mapsto> Str ''Yes''],
                             currentCancerType := Some ''oral'', cancerTypesQueue := []\<rparr>,
                  evs)" for n
    using loadNextCancerType_starved [OF queue none, of n]
    by (simp add: handleResponse_def handleResponse_try_def nextQuestionIndex_def
          afterLastQuestion_def resume_def Let_def skin_phase_def hinted_defs example_defs
          del: loadNextCancerType.simps replicate.simps)
  moreover
  have "render (skin_phase\<lparr>responses := [1 \<mapsto> Str ''Yes'', 2 \<mapsto> Str ''No'', 11 \<mapsto> Str ''Yes''],
                           currentCancerType := Some ''oral'', cancerTypesQueue := []\<rparr>)
        = QuizComponent"
    "questions (skin_phase\<lparr>responses := [1 \<mapsto> Str ''Yes'', 2 \<mapsto> Str ''No'', 11 \<mapsto> Str ''Yes''],
                              currentCancerType := Some ''oral'', cancerTypesQueue := []\<rparr>)
     = [skin_question]"
    by (simp_all add: render_def skin_phase_def hinted_defs example_defs)
  ultimately show ?thesis
    using first shown skin_phase_reachable
      second_question_reachable
        [of "utils conv_digits" one_row "[oral_question]" "Str ''Yes''"]
    by blast
qed
end
